theory Spec2Isabelle
  imports Complex_Main "HOL-Library.Sublist"
begin

section \<open>Python strings\<close>

text \<open>
  A Python \<^verbatim>\<open>str\<close> is a sequence of Unicode code points, so a string is a list of
  natural numbers here. \<open>lit\<close> turns an ASCII literal into its code points; code points
  beyond ASCII (the emoji and box-drawing characters of the script) are written as numbers.
\<close>

type_synonym str = "nat list"

definition lit :: "string \<Rightarrow> str" where
  "lit s = map of_char s"

text \<open>
  \<^verbatim>\<open>sub in s\<close> on strings: \<open>sub\<close> occurs in \<open>s\<close> as a contiguous block, tried at every
  start position from the left.
\<close>

fun py_in :: "str \<Rightarrow> str \<Rightarrow> bool" where
  "py_in sub [] = (sub = [])"
| "py_in sub (c # cs) = (prefix sub (c # cs) \<or> py_in sub cs)"

text \<open>
  \<^verbatim>\<open>str.lower()\<close> is a built-in of the language, not code of the script. On a code
  point below 128 it is the ASCII mapping of \<^verbatim>\<open>A\<close>..\<^verbatim>\<open>Z\<close> to \<^verbatim>\<open>a\<close>..\<^verbatim>\<open>z\<close>. On any other
  code point it follows the Unicode tables of the interpreter, which may replace one code
  point by several and which look at the neighbours of a capital sigma; that part is the
  parameter \<open>U\<close>: \<open>U s i\<close> is what the code point at position \<open>i\<close> of \<open>s\<close> becomes.
\<close>

type_synonym unicode_lower = "str \<Rightarrow> nat \<Rightarrow> str"

definition ascii_lower :: "nat \<Rightarrow> nat" where
  "ascii_lower c = (if 65 \<le> c \<and> c \<le> 90 then c + 32 else c)"

definition lower :: "unicode_lower \<Rightarrow> str \<Rightarrow> str" where
  "lower U s =
     concat (map (\<lambda>i. if s ! i < 128 then [ascii_lower (s ! i)] else U s i) [0..<length s])"

text \<open>\<^verbatim>\<open>str(n)\<close> of a non-negative integer, as an f-string field formats it.\<close>

fun str_nat :: "nat \<Rightarrow> str" where
  "str_nat n = (if n < 10 then [48 + n] else str_nat (n div 10) @ [48 + n mod 10])"

declare str_nat.simps [simp del]

text \<open>
  A float in an f-string field is printed by its shortest decimal form. The three ratings
  of the script are written with one decimal digit, and they print as written; the model
  keeps a rating as the number its literal denotes and prints it to one decimal
  place.
\<close>

definition float_str :: "real \<Rightarrow> str" where
  "float_str x =
     (let t = nat \<lfloor>x * 10 + 1 / 2\<rfloor> in str_nat (t div 10) @ lit ''.'' @ str_nat (t mod 10))"

text \<open>The field \<^verbatim>\<open>{text:^60}\<close>: centred in sixty columns, the odd space on the right.\<close>

definition center :: "nat \<Rightarrow> str \<Rightarrow> str" where
  "center w text =
     (let pad = w - length text; l = pad div 2
      in replicate l 32 @ text @ replicate (pad - l) 32)"

section \<open>Process state and console helpers\<close>

record restaurant =
  name :: str
  cuisine :: str
  location :: str
  rating :: real
  price :: str
  description :: str

text \<open>
  The state the script can touch: the lines still to be read from standard input (end of
  input is the empty list), the characters written to standard output so far, the process
  environment, and the local variable \<^verbatim>\<open>sample_restaurants\<close> of \<^verbatim>\<open>main\<close> (\<open>None\<close> while
  it is unbound). Writing to standard output is taken to succeed.
\<close>

record state =
  stdin :: "str list"
  stdout :: str
  environ :: "str \<Rightarrow> str option"
  catalog :: "restaurant list option"

datatype error = EOFError | UnboundLocalError

type_synonym stmt = "state \<Rightarrow> error + state"

definition GREEN :: str where "GREEN = 27 # lit ''[92m''"
definition BLUE :: str where "BLUE = 27 # lit ''[94m''"
definition YELLOW :: str where "YELLOW = 27 # lit ''[93m''"
definition CYAN :: str where "CYAN = 27 # lit ''[96m''"
definition RESET :: str where "RESET = 27 # lit ''[0m''"
definition BOLD :: str where "BOLD = 27 # lit ''[1m''"

definition py_print :: "str \<Rightarrow> state \<Rightarrow> state" where
  "py_print text \<sigma> = \<sigma>\<lparr>stdout := stdout \<sigma> @ text @ [10]\<rparr>"

text \<open>
  \<^verbatim>\<open>input(prompt)\<close> writes the prompt, then reads one line; at end of input it raises
  \<^verbatim>\<open>EOFError\<close>. The script drops the line it reads.
\<close>

definition py_input :: "str \<Rightarrow> stmt" where
  "py_input prompt \<sigma> =
     (case stdin \<sigma> of
        [] \<Rightarrow> Inl EOFError
      | line # rest \<Rightarrow> Inr (\<sigma>\<lparr>stdout := stdout \<sigma> @ prompt, stdin := rest\<rparr>))"

definition print_header :: "str \<Rightarrow> state \<Rightarrow> state" where
  "print_header text \<sigma> =
     py_print (BOLD @ BLUE @ replicate 60 61 @ RESET @ [10])
       (py_print (BOLD @ BLUE @ center 60 text @ RESET)
         (py_print ([10] @ BOLD @ BLUE @ replicate 60 61 @ RESET) \<sigma>))"

definition print_step :: "nat \<Rightarrow> str \<Rightarrow> state \<Rightarrow> state" where
  "print_step step_num text =
     py_print (YELLOW @ lit ''[Step '' @ str_nat step_num @ lit '']'' @ RESET @ lit '' '' @ text)"

definition print_code :: "str \<Rightarrow> state \<Rightarrow> state" where
  "print_code code = py_print (CYAN @ lit ''>>> '' @ code @ RESET)"

definition print_result :: "str \<Rightarrow> state \<Rightarrow> state" where
  "print_result text = py_print (GREEN @ text @ RESET)"

text \<open>Several \<^verbatim>\<open>print_result\<close> calls in a row, first line first.\<close>

definition print_results :: "str list \<Rightarrow> state \<Rightarrow> state" where
  "print_results ls \<sigma> = fold print_result ls \<sigma>"

section \<open>The sample catalog and the simulated responses\<close>

definition sample_restaurants :: "restaurant list" where
  "sample_restaurants =
     [\<lparr>name = lit ''Joe's Pizza'',
       cuisine = lit ''Italian, Pizza'',
       location = lit ''New York, NY'',
       rating = 4.5,
       price = lit ''$$'',
       description = lit ''Classic NYC slice joint since 1975. Famous for thin crust pizza.''\<rparr>,
      \<lparr>name = lit ''Sushi Nakazawa'',
       cuisine = lit ''Japanese, Sushi'',
       location = lit ''New York, NY'',
       rating = 4.8,
       price = lit ''$$$$'',
       description = lit ''Omakase experience from Jiro Dreams of Sushi apprentice.''\<rparr>,
      \<lparr>name = lit ''Shake Shack'',
       cuisine = lit ''American, Burgers'',
       location = lit ''New York, NY'',
       rating = 4.3,
       price = lit ''$$'',
       description = lit ''Modern roadside burger stand with quality ingredients.''\<rparr>]"

text \<open>The arguments of the \<^verbatim>\<open>print_result\<close> calls in the three branches, as written.\<close>

definition pizza_response :: "str list" where
  "pizza_response =
     [[0x1F355] @ lit '' Based on your query, I recommend:'',
      [],
      lit ''   Joe's Pizza '' @ [0x2B50] @ lit '' 4.5'',
      lit ''   '' @ [0x1F4CD] @ lit '' New York, NY | '' @ [0x1F4B0] @ lit '' $$'',
      lit ''   Classic NYC slice joint since 1975.'',
      lit ''   Famous for thin crust pizza.'']"

definition japanese_response :: "str list" where
  "japanese_response =
     [[0x1F363] @ lit '' For a special Japanese dining experience:'',
      [],
      lit ''   Sushi Nakazawa '' @ [0x2B50] @ lit '' 4.8'',
      lit ''   '' @ [0x1F4CD] @ lit '' New York, NY | '' @ [0x1F4B0] @ lit '' $$$$'',
      lit ''   Omakase experience from Jiro Dreams'',
      lit ''   of Sushi apprentice.'']"

definition fallback_response :: "str list" where
  "fallback_response =
     [[0x1F354] @ lit '' For a quick casual lunch:'',
      [],
      lit ''   Shake Shack '' @ [0x2B50] @ lit '' 4.3'',
      lit ''   '' @ [0x1F4CD] @ lit '' New York, NY | '' @ [0x1F4B0] @ lit '' $$'',
      lit ''   Modern roadside burger stand with'',
      lit ''   quality ingredients.'']"

text \<open>Lines 155 to 175 of the script: the keyword dispatch inside the query loop.\<close>

definition simulated_response :: "unicode_lower \<Rightarrow> str \<Rightarrow> state \<Rightarrow> state" where
  "simulated_response U query \<sigma> =
     (if py_in (lit ''pizza'') (lower U query) then print_results pizza_response \<sigma>
      else if py_in (lit ''japanese'') (lower U query) then print_results japanese_response \<sigma>
      else print_results fallback_response \<sigma>)"

section \<open>Rendering a record, as the specification words it\<close>

text \<open>
  The specification asks for the selected record to be rendered with its name, its rating
  to one decimal place with a star indicator, its location, its price tier, and its
  description unmodified but possibly wrapped across display lines. \<open>rendering_of r ls\<close>
  says that the display lines \<open>ls\<close> are such a rendering of \<open>r\<close>: a name and rating line,
  a location and price line, and then the description, cut at spaces into indented lines.
\<close>

definition indent :: str where
  "indent = lit ''   ''"

fun unwrap :: "str list \<Rightarrow> str" where
  "unwrap [] = []"
| "unwrap [d] = drop (length indent) d"
| "unwrap (d # ds) = drop (length indent) d @ lit '' '' @ unwrap ds"

definition rendering_of :: "restaurant \<Rightarrow> str list \<Rightarrow> bool" where
  "rendering_of r ls =
     (case ls of
        l1 # l2 # ds \<Rightarrow>
          l1 = indent @ name r @ lit '' '' @ [0x2B50] @ lit '' '' @ float_str (rating r) \<and>
          l2 = indent @ [0x1F4CD] @ lit '' '' @ location r @ lit '' | '' @ [0x1F4B0] @ lit '' ''
                 @ price r \<and>
          ds \<noteq> [] \<and> list_all (prefix indent) ds \<and> unwrap ds = description r
      | _ \<Rightarrow> False)"

section \<open>The script, statement by statement\<close>

text \<open>
  A statement either raises or returns the next state. \<open>ok\<close> lifts a statement that
  cannot raise, and \<open>run\<close> executes statements in order, stopping at the first
  exception, which nothing in the script catches.
\<close>

definition ok :: "(state \<Rightarrow> state) \<Rightarrow> stmt" where
  "ok f \<sigma> = Inr (f \<sigma>)"

fun run :: "stmt list \<Rightarrow> stmt" where
  "run [] \<sigma> = Inr \<sigma>"
| "run (f # fs) \<sigma> = (case f \<sigma> of Inl e \<Rightarrow> Inl e | Inr \<sigma>' \<Rightarrow> run fs \<sigma>')"

text \<open>A triple-quoted literal: its lines, with a newline between any two.\<close>

fun join_lines :: "str list \<Rightarrow> str" where
  "join_lines [] = []"
| "join_lines [l] = l"
| "join_lines (l # ls) = l @ [10] @ join_lines ls"

text \<open>The text printed at line 49.\<close>

definition intro_text :: str where
  "intro_text =
     join_lines
     [[],
      lit ''This demo showcases a RAG (Retrieval-Augmented Generation) system'',
      lit ''that helps users find restaurants using natural language queries.'',
      [],
      lit ''Key Features:'',
      lit ''  '' @ [0x2022] @ lit '' Multi-source data scraping (Yelp, Google, generic)'',
      lit ''  '' @ [0x2022] @ lit '' FAISS vector store for semantic search'',
      lit ''  '' @ [0x2022] @ lit '' LangGraph agent for multi-step reasoning'',
      lit ''  '' @ [0x2022] @ lit '' Natural language query understanding'',
      lit ''    '']"

text \<open>The text printed at line 64.\<close>

definition architecture_text :: str where
  "architecture_text =
     join_lines
     [[],
      lit ''    '' @ [0x250C] @ replicate 17 0x2500 @ [0x2510] @ lit ''     '' @ [0x250C]
        @ replicate 17 0x2500 @ [0x2510],
      lit ''    '' @ [0x2502] @ lit ''   User Query    '' @ [0x2502] @ replicate 4 0x2500
        @ [0x25B6, 0x2502] @ lit ''  Query Parser   '' @ [0x2502],
      lit ''    '' @ [0x2502] @ lit '' '' @ [34] @ lit ''Pizza in NYC'' @ [34] @ lit ''  ''
        @ [0x2502] @ lit ''     '' @ [0x2502] @ lit ''  (LLM-based)    '' @ [0x2502],
      lit ''    '' @ [0x2514] @ replicate 17 0x2500 @ [0x2518] @ lit ''     '' @ [0x2514]
        @ replicate 8 0x2500 @ [0x252C] @ replicate 8 0x2500 @ [0x2518],
      lit ''                                     '' @ [0x2502],
      lit ''                                     '' @ [0x25BC],
      lit ''    '' @ [0x250C] @ replicate 17 0x2500 @ [0x2510] @ lit ''     '' @ [0x250C]
        @ replicate 17 0x2500 @ [0x2510],
      lit ''    '' @ [0x2502] @ lit ''  Vector Store   '' @ [0x2502, 0x25C0]
        @ replicate 4 0x2500 @ [0x2502] @ lit ''   RAG Engine    '' @ [0x2502],
      lit ''    '' @ [0x2502] @ lit ''    (FAISS)      '' @ [0x2502] @ replicate 4 0x2500
        @ [0x25B6, 0x2502] @ lit ''  (LangChain)    '' @ [0x2502],
      lit ''    '' @ [0x2514] @ replicate 17 0x2500 @ [0x2518] @ lit ''     '' @ [0x2514]
        @ replicate 8 0x2500 @ [0x252C] @ replicate 8 0x2500 @ [0x2518],
      lit ''                                     '' @ [0x2502],
      lit ''                                     '' @ [0x25BC],
      lit ''    '' @ [0x250C] @ replicate 17 0x2500 @ [0x2510] @ lit ''     '' @ [0x250C]
        @ replicate 17 0x2500 @ [0x2510],
      lit ''    '' @ [0x2502] @ lit ''  LangGraph      '' @ [0x2502] @ replicate 4 0x2500
        @ [0x25B6, 0x2502] @ lit ''    Response     '' @ [0x2502],
      lit ''    '' @ [0x2502] @ lit ''    Agent        '' @ [0x2502] @ lit ''     '' @ [0x2502]
        @ lit ''   Generator     '' @ [0x2502],
      lit ''    '' @ [0x2514] @ replicate 17 0x2500 @ [0x2518] @ lit ''     '' @ [0x2514]
        @ replicate 17 0x2500 @ [0x2518],
      lit ''    '']"

text \<open>The text printed at line 184.\<close>

definition reasoning_text :: str where
  "reasoning_text =
     join_lines
     [[],
      lit ''The LangGraph agent breaks down complex queries:'',
      [],
      lit ''Query: '' @ [34]
        @ lit ''Find me a romantic Italian restaurant for anniversary dinner'' @ [34],
      [],
      lit ''Agent Reasoning:'',
      lit ''  1. '' @ [0x1F50D] @ lit '' SEARCH: Looking for Italian restaurants'',
      lit ''  2. '' @ [0x1F3AF] @ lit '' FILTER: Applying '' @ [34] @ lit ''romantic'' @ [34]
        @ lit '' atmosphere filter  '',
      lit ''  3. '' @ [0x1F4B0] @ lit '' FILTER: Checking for special occasion pricing'',
      lit ''  4. '' @ [0x2B50] @ lit '' RANK: Sorting by rating and reviews'',
      lit ''  5. '' @ [0x1F4DD] @ lit '' GENERATE: Creating personalized recommendation'',
      lit ''    '']"

text \<open>The text printed at line 222.\<close>

definition takeaways_text :: str where
  "takeaways_text =
     join_lines
     [[],
      lit ''Key Takeaways:'',
      [],
      lit ''1. '' @ [0x1F3D7, 0xFE0F] @ lit ''  ARCHITECTURE'',
      lit ''   - Modular design with clear separation of concerns'',
      lit ''   - LangChain for LLM orchestration'',
      lit ''   - LangGraph for complex agent workflows'',
      [],
      lit ''2. '' @ [0x1F527] @ lit ''  PRODUCTION FEATURES'',
      lit ''   - Multiple data source support'',
      lit ''   - Error handling and fallbacks'',
      lit ''   - REST API with Swagger docs'',
      [],
      lit ''3. '' @ [0x1F4C8] @ lit ''  SCALABILITY'',
      lit ''   - FAISS for fast vector similarity'',
      lit ''   - Async support for high concurrency'',
      lit ''   - Easy to swap components (e.g., Pinecone instead of FAISS)'',
      [],
      lit ''Questions?'',
      lit ''    '']"

text \<open>Lines 47 to 103: title, architecture diagram, initialisation, up to the catalog.\<close>

definition before_catalog :: "stmt list" where
  "before_catalog =
     [ok (print_header ([0x1F355] @ lit '' Restaurant RAG System Demo'')),
      ok (py_print intro_text),
      py_input ([10] @ BOLD @ lit ''Press Enter to start the demo...'' @ RESET),
      ok (print_header (lit ''Architecture Overview'')),
      ok (py_print architecture_text),
      py_input ([10] @ BOLD @ lit ''Press Enter to see code examples...'' @ RESET),
      ok (print_header (lit ''Step 1: Initialize the System'')),
      ok (print_step 1 (lit ''Import and create the RAG engine'')),
      ok (print_code (lit ''from rag_engine import RestaurantRAGEngine'')),
      ok (print_code (lit ''engine = RestaurantRAGEngine()'')),
      ok (py_print []),
      ok (print_result ([0x2713] @ lit '' RAG engine initialized with:'')),
      ok (print_result (lit ''  - OpenAI GPT-4o-mini for generation'')),
      ok (print_result (lit ''  - text-embedding-3-small for embeddings'')),
      ok (print_result (lit ''  - FAISS vector store'')),
      py_input ([10] @ BOLD @ lit ''Press Enter to add sample data...'' @ RESET),
      ok (print_header (lit ''Step 2: Add Restaurant Data'')),
      ok (print_step 2 (lit ''Add sample restaurant data''))]"

text \<open>Lines 105 to 130: the assignment that binds \<^verbatim>\<open>sample_restaurants\<close>.\<close>

definition assign_sample_restaurants :: stmt where
  "assign_sample_restaurants = ok (\<lambda>\<sigma>. \<sigma>\<lparr>catalog := Some sample_restaurants\<rparr>)"

text \<open>
  Lines 135 and 136: one line per record of the variable. Reading the variable while it is
  unbound would raise \<^verbatim>\<open>UnboundLocalError\<close>.
\<close>

definition added_line :: "restaurant \<Rightarrow> str" where
  "added_line r =
     lit ''  '' @ [0x2713] @ lit '' Added: '' @ name r @ lit '' ('' @ cuisine r @ lit '') - ''
       @ float_str (rating r) @ [0x2B50]"

definition print_added :: stmt where
  "print_added \<sigma> =
     (case catalog \<sigma> of
        None \<Rightarrow> Inl UnboundLocalError
      | Some rs \<Rightarrow> Inr (fold (\<lambda>r. print_result (added_line r)) rs \<sigma>))"

definition add_data :: "stmt list" where
  "add_data =
     [ok (print_code (lit ''engine.add_restaurants(sample_restaurants)'')),
      ok (py_print []),
      print_added,
      py_input ([10] @ BOLD @ lit ''Press Enter to run queries...'' @ RESET)]"

definition queries :: "str list" where
  "queries =
     [lit ''Where can I find good pizza in New York?'',
      lit ''I want fancy Japanese food for a special occasion'',
      lit ''Quick casual lunch under $20?'']"

text \<open>
  Lines 149 to 179: the body of the query loop for the query numbered \<open>i\<close> (from 1), and
  the loop over \<^verbatim>\<open>enumerate(queries, 1)\<close>.
\<close>

definition query_iteration :: "unicode_lower \<Rightarrow> nat \<Rightarrow> str \<Rightarrow> stmt list" where
  "query_iteration U i query =
     [ok (print_step i (lit ''Query: '' @ [34] @ query @ [34])),
      ok (print_code (lit ''result = engine.query('' @ [39] @ query @ [39] @ lit '')'')),
      ok (py_print []),
      ok (simulated_response U query),
      ok (py_print []),
      (if i < length queries
       then py_input (BOLD @ lit ''Press Enter for next query...'' @ RESET)
       else run [])]"

definition query_loop :: "unicode_lower \<Rightarrow> stmt list" where
  "query_loop U = map (\<lambda>(i, query). run (query_iteration U i query)) (List.enumerate 1 queries)"

text \<open>Lines 182 to 241: agent reasoning, the API section and the takeaways.\<close>

definition closing :: "stmt list" where
  "closing =
     [ok (print_header (lit ''Step 4: Agent Reasoning (LangGraph)'')),
      ok (py_print reasoning_text),
      py_input ([10] @ BOLD @ lit ''Press Enter for API demo...'' @ RESET),
      ok (print_header (lit ''Step 5: REST API'')),
      ok (py_print (lit ''The system exposes a FastAPI REST API:'' @ [10])),
      ok (print_code (lit ''# Start server'')),
      ok (print_code (lit ''uvicorn api:app --reload'')),
      ok (py_print []),
      ok (py_print (lit ''Endpoints:'')),
      ok (py_print (lit ''  '' @ GREEN @ lit ''POST /query'' @ RESET
        @ lit ''         - Natural language search'')),
      ok (py_print (lit ''  '' @ GREEN @ lit ''POST /restaurants'' @ RESET
        @ lit ''   - Add restaurant data'')),
      ok (py_print (lit ''  '' @ GREEN @ lit ''GET  /restaurants'' @ RESET
        @ lit ''   - List all restaurants'')),
      ok (py_print (lit ''  '' @ GREEN @ lit ''GET  /health'' @ RESET
        @ lit ''        - Health check'')),
      ok (py_print []),
      ok (print_code (lit ''curl -X POST http://localhost:8000/query '' @ [92])),
      ok (print_code (lit ''  -H '' @ [39] @ lit ''Content-Type: application/json'' @ [39]
        @ lit '' '' @ [92])),
      ok (print_code (lit ''  -d '' @ [39] @ lit ''{'' @ [34] @ lit ''query'' @ [34]
        @ lit '': '' @ [34] @ lit ''Best tacos in Austin'' @ [34] @ lit ''}'' @ [39])),
      ok (print_header (lit ''Demo Complete! '' @ [0x1F389])),
      ok (py_print takeaways_text)]"

text \<open>
  \<^verbatim>\<open>main\<close>, and the exit status of the process that calls it at line 244: an exception
  that reaches the top level ends the process with status 1.
\<close>

definition after_catalog :: "unicode_lower \<Rightarrow> stmt list" where
  "after_catalog U =
     add_data @ [ok (print_header (lit ''Step 3: Natural Language Queries''))] @ query_loop U
       @ closing"

definition main :: "unicode_lower \<Rightarrow> stmt" where
  "main U = run (before_catalog @ [assign_sample_restaurants] @ after_catalog U)"


section \<open>Properties of statements\<close>

text \<open>
  \<open>output_only f\<close>: the statement \<open>f\<close> appends some text to standard output and touches
  nothing else.
\<close>

definition output_only :: "(state \<Rightarrow> state) \<Rightarrow> bool" where
  "output_only f = (\<forall>\<sigma>. \<exists>t. f \<sigma> = \<sigma>\<lparr>stdout := stdout \<sigma> @ t\<rparr>)"

text \<open>
  \<open>consumes k f\<close>: the statement \<open>f\<close> reads exactly \<open>k\<close> lines. With fewer than \<open>k\<close> lines
  left it raises \<^verbatim>\<open>EOFError\<close>; otherwise it returns, having dropped \<open>k\<close> lines, kept the
  environment and only added to standard output.
\<close>

definition consumes :: "nat \<Rightarrow> stmt \<Rightarrow> bool" where
  "consumes k f =
     (\<forall>\<sigma>. if length (stdin \<sigma>) < k then f \<sigma> = Inl EOFError
          else (\<exists>\<sigma>'. f \<sigma> = Inr \<sigma>' \<and> stdin \<sigma>' = drop k (stdin \<sigma>) \<and> environ \<sigma>' = environ \<sigma>
                  \<and> prefix (stdout \<sigma>) (stdout \<sigma>')))"

text \<open>\<open>keeps_catalog f\<close>: when \<open>f\<close> returns, the variable \<^verbatim>\<open>sample_restaurants\<close> is as before.\<close>

definition keeps_catalog :: "stmt \<Rightarrow> bool" where
  "keeps_catalog f = (\<forall>\<sigma> \<sigma>'. f \<sigma> = Inr \<sigma>' \<longrightarrow> catalog \<sigma>' = catalog \<sigma>)"

section \<open>Sample inputs\<close>

text \<open>
  A table for the non-ASCII part of \<^verbatim>\<open>str.lower()\<close> that leaves every such code point
  as it is, and the state of a process that has written nothing, at end of input, with an
  empty environment; \<open>seven_lines\<close> is the same process with seven lines waiting on
  standard input. They give the theorems below concrete runs.
\<close>

definition no_unicode :: unicode_lower where
  "no_unicode s i = [s ! i]"

definition initial_state :: state where
  "initial_state = \<lparr>stdin = [], stdout = [], environ = (\<lambda>k. None), catalog = None\<rparr>"

definition seven_lines :: state where
  "seven_lines =
     \<lparr>stdin = [[], lit ''go on'', lit ''PIZZA'', [0x1F355], lit ''no'', lit ''quit'', lit '' ''],
      stdout = [], environ = (\<lambda>k. None), catalog = None\<rparr>"

section \<open>The lowercase table of the interpreter\<close>

text \<open>
  The non-ASCII part of \<^verbatim>\<open>str.lower()\<close> as CPython 3.11 has it: the lowercase mappings of
  the Unicode Character Database, version 14.0.0, for the code points from 128 up. An entry
  \<open>(lo, hi, st, tg)\<close> says that the code points \<open>lo\<close>, \<open>lo + st\<close>, ... up to \<open>hi\<close> become
  \<open>tg\<close>, \<open>tg + st\<close>, ... in the same order; a code point in no entry stays as it is. The
  entries are in ascending order and kept in fifteen blocks, each with the least and the
  greatest code point it speaks of.
\<close>

type_synonym case_range = "nat \<times> nat \<times> nat \<times> nat"

definition lower_block :: "nat \<Rightarrow> case_range list" where
  "lower_block k =
     (if k = 0 then
        [(0xC0, 0xD6, 1, 0xE0), (0xD8, 0xDE, 1, 0xF8), (0x100, 0x12E, 2, 0x101),
         (0x132, 0x136, 2, 0x133), (0x139, 0x147, 2, 0x13A), (0x14A, 0x176, 2, 0x14B),
         (0x178, 0x178, 1, 0xFF), (0x179, 0x17D, 2, 0x17A), (0x181, 0x181, 1, 0x253),
         (0x182, 0x184, 2, 0x183), (0x186, 0x186, 1, 0x254), (0x187, 0x187, 1, 0x188)]
      else if k = 1 then
        [(0x189, 0x18A, 1, 0x256), (0x18B, 0x18B, 1, 0x18C), (0x18E, 0x18E, 1, 0x1DD),
         (0x18F, 0x18F, 1, 0x259), (0x190, 0x190, 1, 0x25B), (0x191, 0x191, 1, 0x192),
         (0x193, 0x193, 1, 0x260), (0x194, 0x194, 1, 0x263), (0x196, 0x196, 1, 0x269),
         (0x197, 0x197, 1, 0x268), (0x198, 0x198, 1, 0x199), (0x19C, 0x19C, 1, 0x26F)]
      else if k = 2 then
        [(0x19D, 0x19D, 1, 0x272), (0x19F, 0x19F, 1, 0x275), (0x1A0, 0x1A4, 2, 0x1A1),
         (0x1A6, 0x1A6, 1, 0x280), (0x1A7, 0x1A7, 1, 0x1A8), (0x1A9, 0x1A9, 1, 0x283),
         (0x1AC, 0x1AC, 1, 0x1AD), (0x1AE, 0x1AE, 1, 0x288), (0x1AF, 0x1AF, 1, 0x1B0),
         (0x1B1, 0x1B2, 1, 0x28A), (0x1B3, 0x1B5, 2, 0x1B4), (0x1B7, 0x1B7, 1, 0x292)]
      else if k = 3 then
        [(0x1B8, 0x1B8, 1, 0x1B9), (0x1BC, 0x1BC, 1, 0x1BD), (0x1C4, 0x1C4, 1, 0x1C6),
         (0x1C5, 0x1C5, 1, 0x1C6), (0x1C7, 0x1C7, 1, 0x1C9), (0x1C8, 0x1C8, 1, 0x1C9),
         (0x1CA, 0x1CA, 1, 0x1CC), (0x1CB, 0x1DB, 2, 0x1CC), (0x1DE, 0x1EE, 2, 0x1DF),
         (0x1F1, 0x1F1, 1, 0x1F3), (0x1F2, 0x1F4, 2, 0x1F3), (0x1F6, 0x1F6, 1, 0x195)]
      else if k = 4 then
        [(0x1F7, 0x1F7, 1, 0x1BF), (0x1F8, 0x21E, 2, 0x1F9), (0x220, 0x220, 1, 0x19E),
         (0x222, 0x232, 2, 0x223), (0x23A, 0x23A, 1, 0x2C65), (0x23B, 0x23B, 1, 0x23C),
         (0x23D, 0x23D, 1, 0x19A), (0x23E, 0x23E, 1, 0x2C66), (0x241, 0x241, 1, 0x242),
         (0x243, 0x243, 1, 0x180), (0x244, 0x244, 1, 0x289), (0x245, 0x245, 1, 0x28C)]
      else if k = 5 then
        [(0x246, 0x24E, 2, 0x247), (0x370, 0x372, 2, 0x371), (0x376, 0x376, 1, 0x377),
         (0x37F, 0x37F, 1, 0x3F3), (0x386, 0x386, 1, 0x3AC), (0x388, 0x38A, 1, 0x3AD),
         (0x38C, 0x38C, 1, 0x3CC), (0x38E, 0x38F, 1, 0x3CD), (0x391, 0x3A1, 1, 0x3B1),
         (0x3A4, 0x3AB, 1, 0x3C4), (0x3CF, 0x3CF, 1, 0x3D7), (0x3D8, 0x3EE, 2, 0x3D9)]
      else if k = 6 then
        [(0x3F4, 0x3F4, 1, 0x3B8), (0x3F7, 0x3F7, 1, 0x3F8), (0x3F9, 0x3F9, 1, 0x3F2),
         (0x3FA, 0x3FA, 1, 0x3FB), (0x3FD, 0x3FF, 1, 0x37B), (0x400, 0x40F, 1, 0x450),
         (0x410, 0x42F, 1, 0x430), (0x460, 0x480, 2, 0x461), (0x48A, 0x4BE, 2, 0x48B),
         (0x4C0, 0x4C0, 1, 0x4CF), (0x4C1, 0x4CD, 2, 0x4C2), (0x4D0, 0x52E, 2, 0x4D1)]
      else if k = 7 then
        [(0x531, 0x556, 1, 0x561), (0x10A0, 0x10C5, 1, 0x2D00), (0x10C7, 0x10C7, 1, 0x2D27),
         (0x10CD, 0x10CD, 1, 0x2D2D), (0x13A0, 0x13EF, 1, 0xAB70), (0x13F0, 0x13F5, 1, 0x13F8),
         (0x1C90, 0x1CBA, 1, 0x10D0), (0x1CBD, 0x1CBF, 1, 0x10FD), (0x1E00, 0x1E94, 2, 0x1E01),
         (0x1E9E, 0x1E9E, 1, 0xDF), (0x1EA0, 0x1EFE, 2, 0x1EA1), (0x1F08, 0x1F0F, 1, 0x1F00)]
      else if k = 8 then
        [(0x1F18, 0x1F1D, 1, 0x1F10), (0x1F28, 0x1F2F, 1, 0x1F20), (0x1F38, 0x1F3F, 1, 0x1F30),
         (0x1F48, 0x1F4D, 1, 0x1F40), (0x1F59, 0x1F5F, 2, 0x1F51), (0x1F68, 0x1F6F, 1, 0x1F60),
         (0x1F88, 0x1F8F, 1, 0x1F80), (0x1F98, 0x1F9F, 1, 0x1F90), (0x1FA8, 0x1FAF, 1, 0x1FA0),
         (0x1FB8, 0x1FB9, 1, 0x1FB0), (0x1FBA, 0x1FBB, 1, 0x1F70), (0x1FBC, 0x1FBC, 1, 0x1FB3)]
      else if k = 9 then
        [(0x1FC8, 0x1FCB, 1, 0x1F72), (0x1FCC, 0x1FCC, 1, 0x1FC3), (0x1FD8, 0x1FD9, 1, 0x1FD0),
         (0x1FDA, 0x1FDB, 1, 0x1F76), (0x1FE8, 0x1FE9, 1, 0x1FE0), (0x1FEA, 0x1FEB, 1, 0x1F7A),
         (0x1FEC, 0x1FEC, 1, 0x1FE5), (0x1FF8, 0x1FF9, 1, 0x1F78), (0x1FFA, 0x1FFB, 1, 0x1F7C),
         (0x1FFC, 0x1FFC, 1, 0x1FF3), (0x2126, 0x2126, 1, 0x3C9), (0x212A, 0x212A, 1, 0x6B)]
      else if k = 10 then
        [(0x212B, 0x212B, 1, 0xE5), (0x2132, 0x2132, 1, 0x214E), (0x2160, 0x216F, 1, 0x2170),
         (0x2183, 0x2183, 1, 0x2184), (0x24B6, 0x24CF, 1, 0x24D0), (0x2C00, 0x2C2F, 1, 0x2C30),
         (0x2C60, 0x2C60, 1, 0x2C61), (0x2C62, 0x2C62, 1, 0x26B), (0x2C63, 0x2C63, 1, 0x1D7D),
         (0x2C64, 0x2C64, 1, 0x27D), (0x2C67, 0x2C6B, 2, 0x2C68), (0x2C6D, 0x2C6D, 1, 0x251)]
      else if k = 11 then
        [(0x2C6E, 0x2C6E, 1, 0x271), (0x2C6F, 0x2C6F, 1, 0x250), (0x2C70, 0x2C70, 1, 0x252),
         (0x2C72, 0x2C72, 1, 0x2C73), (0x2C75, 0x2C75, 1, 0x2C76), (0x2C7E, 0x2C7F, 1, 0x23F),
         (0x2C80, 0x2CE2, 2, 0x2C81), (0x2CEB, 0x2CED, 2, 0x2CEC), (0x2CF2, 0x2CF2, 1, 0x2CF3),
         (0xA640, 0xA66C, 2, 0xA641), (0xA680, 0xA69A, 2, 0xA681), (0xA722, 0xA72E, 2, 0xA723)]
      else if k = 12 then
        [(0xA732, 0xA76E, 2, 0xA733), (0xA779, 0xA77B, 2, 0xA77A), (0xA77D, 0xA77D, 1, 0x1D79),
         (0xA77E, 0xA786, 2, 0xA77F), (0xA78B, 0xA78B, 1, 0xA78C), (0xA78D, 0xA78D, 1, 0x265),
         (0xA790, 0xA792, 2, 0xA791), (0xA796, 0xA7A8, 2, 0xA797), (0xA7AA, 0xA7AA, 1, 0x266),
         (0xA7AB, 0xA7AB, 1, 0x25C), (0xA7AC, 0xA7AC, 1, 0x261), (0xA7AD, 0xA7AD, 1, 0x26C)]
      else if k = 13 then
        [(0xA7AE, 0xA7AE, 1, 0x26A), (0xA7B0, 0xA7B0, 1, 0x29E), (0xA7B1, 0xA7B1, 1, 0x287),
         (0xA7B2, 0xA7B2, 1, 0x29D), (0xA7B3, 0xA7B3, 1, 0xAB53), (0xA7B4, 0xA7C2, 2, 0xA7B5),
         (0xA7C4, 0xA7C4, 1, 0xA794), (0xA7C5, 0xA7C5, 1, 0x282), (0xA7C6, 0xA7C6, 1, 0x1D8E),
         (0xA7C7, 0xA7C9, 2, 0xA7C8), (0xA7D0, 0xA7D0, 1, 0xA7D1), (0xA7D6, 0xA7D8, 2, 0xA7D7)]
      else if k = 14 then
        [(0xA7F5, 0xA7F5, 1, 0xA7F6), (0xFF21, 0xFF3A, 1, 0xFF41),
         (0x10400, 0x10427, 1, 0x10428), (0x104B0, 0x104D3, 1, 0x104D8),
         (0x10570, 0x1057A, 1, 0x10597), (0x1057C, 0x1058A, 1, 0x105A3),
         (0x1058C, 0x10592, 1, 0x105B3), (0x10594, 0x10595, 1, 0x105BB),
         (0x10C80, 0x10CB2, 1, 0x10CC0), (0x118A0, 0x118BF, 1, 0x118C0),
         (0x16E40, 0x16E5F, 1, 0x16E60), (0x1E900, 0x1E921, 1, 0x1E922)]
      else [])"

definition lower_block_bounds :: "nat \<Rightarrow> nat \<times> nat" where
  "lower_block_bounds k =
     (if k = 0 then (0xC0, 0x187)
      else if k = 1 then (0x189, 0x19C)
      else if k = 2 then (0x19D, 0x1B7)
      else if k = 3 then (0x1B8, 0x1F6)
      else if k = 4 then (0x1F7, 0x245)
      else if k = 5 then (0x246, 0x3EE)
      else if k = 6 then (0x3F4, 0x52E)
      else if k = 7 then (0x531, 0x1F0F)
      else if k = 8 then (0x1F18, 0x1FBC)
      else if k = 9 then (0x1FC8, 0x212A)
      else if k = 10 then (0x212B, 0x2C6D)
      else if k = 11 then (0x2C6E, 0xA72E)
      else if k = 12 then (0xA732, 0xA7AD)
      else if k = 13 then (0xA7AE, 0xA7D8)
      else if k = 14 then (0xA7F5, 0x1E921)
      else (0, 0))"

definition lower_block_ids :: "nat list" where
  "lower_block_ids = [0, 1, 2, 3, 4, 5, 6, 7, 8, 9, 10, 11, 12, 13, 14]"

definition lower_ranges :: "case_range list" where
  "lower_ranges = concat (map lower_block lower_block_ids)"

text \<open>
  Three ranges are not in the table, since \<open>lower\<close> treats them before it looks there: the
  ASCII capitals, U+0130 (the one code point whose lowercase form has two code points,
  \<^verbatim>\<open>i\<close> and U+0307), and U+03A3, capital sigma.
\<close>

definition special_ranges :: "case_range list" where
  "special_ranges = [(0x41, 0x5A, 1, 0x61), (0x130, 0x130, 1, 0x69), (0x3A3, 0x3A3, 1, 0x3C3)]"

definition in_range :: "nat \<Rightarrow> case_range \<Rightarrow> bool" where
  "in_range c r = (case r of (lo, hi, st, tg) \<Rightarrow> lo \<le> c \<and> c \<le> hi \<and> (c - lo) mod st = 0)"

definition unicode_lower_char :: "nat \<Rightarrow> nat" where
  "unicode_lower_char c =
     (case find (in_range c) lower_ranges of
        None \<Rightarrow> c
      | Some (lo, hi, st, tg) \<Rightarrow> tg + (c - lo))"

text \<open>
  A capital sigma becomes a final sigma (U+03C2) or a small sigma (U+03C3); which one
  depends on the cased letters around it, and that choice is the parameter
  \<open>final_sigma\<close>. Every other code point is lower-cased on its own.
\<close>

definition py_unicode :: "(str \<Rightarrow> nat \<Rightarrow> bool) \<Rightarrow> unicode_lower" where
  "py_unicode final_sigma s i =
     (if s ! i = 0x130 then [0x69, 0x307]
      else if s ! i = 0x3A3 then [if final_sigma s i then 0x3C2 else 0x3C3]
      else [unicode_lower_char (s ! i)])"

text \<open>
  \<open>fixed_point e\<close>: lower-casing leaves the code point \<open>e\<close> alone. The checks below decide,
  block by block, that the code points \<open>a\<close>, \<open>a + st\<close>, ... up to \<open>b\<close> meet no range: a
  block whose bounds lie wholly to one side is skipped, and within a block a range is
  passed when it lies to one side, when both progressions have step 2 and opposite
  parity, or when the single code point \<open>a\<close> is not in it.
\<close>

definition fixed_point :: "nat \<Rightarrow> bool" where
  "fixed_point e = list_all (\<lambda>d. \<not> in_range e d) (special_ranges @ lower_ranges)"

definition apart :: "nat \<Rightarrow> nat \<Rightarrow> nat \<Rightarrow> bool \<Rightarrow> case_range \<Rightarrow> bool" where
  "apart a b st one d =
     (case d of (lo', hi', st', tg') \<Rightarrow>
        if hi' < a then True
        else if b < lo' then True
        else (st = 2 \<and> st' = 2 \<and> (a + lo') mod 2 = 1)
             \<or> (one \<and> \<not> (lo' \<le> a \<and> a \<le> hi' \<and> (a - lo') mod st' = 0)))"

definition far :: "nat \<Rightarrow> nat \<Rightarrow> nat \<times> nat \<Rightarrow> bool" where
  "far a b bounds = (case bounds of (L, H) \<Rightarrow> if H < a then True else b < L)"

definition clear :: "nat \<Rightarrow> nat \<Rightarrow> nat \<Rightarrow> bool \<Rightarrow> bool" where
  "clear a b st one =
     (list_all (apart a b st one) special_ranges
      \<and> list_all (\<lambda>k. if far a b (lower_block_bounds k) then True
                      else list_all (apart a b st one) (lower_block k)) lower_block_ids)"

definition safe :: "case_range \<Rightarrow> bool" where
  "safe r = (case r of (lo, hi, st, tg) \<Rightarrow> clear tg (tg + (hi - lo)) st (lo = hi))"

definition within_bounds :: "nat \<Rightarrow> bool" where
  "within_bounds k =
     (case lower_block_bounds k of (L, H) \<Rightarrow>
        128 \<le> L
        \<and> list_all (\<lambda>r. case r of (lo, hi, st, tg) \<Rightarrow> L \<le> lo \<and> hi \<le> H) (lower_block k))"

section \<open>Strings: containment and lower-casing\<close>

text \<open>\<open>py_in\<close> is containment as a contiguous block.\<close>

lemma py_in_sublist: "py_in sub s = sublist sub s"
  by (induction s) (simp_all add: sublist_Cons_right)

text \<open>On a string of ASCII code points the Unicode table plays no part.\<close>

lemma lower_ascii: "list_all (\<lambda>c. c < 128) s \<Longrightarrow> lower U s = map ascii_lower s"
proof -
  assume a: "list_all (\<lambda>c. c < 128) s"
  have h: "map (\<lambda>i. if s ! i < 128 then [ascii_lower (s ! i)] else U s i) [0..<length s]
      = map (\<lambda>i. [ascii_lower (s ! i)]) [0..<length s]"
    using a by (simp add: list_all_length)
  have "lower U s = concat (map (\<lambda>i. [ascii_lower (s ! i)]) [0..<length s])"
    unfolding lower_def h ..
  also have "\<dots> = map (\<lambda>i. ascii_lower (s ! i)) [0..<length s]"
    by (simp only: concat_map_singleton)
  also have "\<dots> = map ascii_lower (map ((!) s) [0..<length s])"
    by (simp only: map_map comp_def)
  also have "\<dots> = map ascii_lower s"
    by (simp only: map_nth)
  finally show ?thesis .
qed

lemma lower_Nil: "lower U [] = []"
  by (simp add: lower_def)

lemma ascii_lower_idem: "ascii_lower (ascii_lower c) = ascii_lower c"
  by (simp add: ascii_lower_def)

lemma ascii_lower_ascii: "c < 128 \<Longrightarrow> ascii_lower c < 128"
  by (simp add: ascii_lower_def)

lemma lower_idem_ascii:
  assumes "list_all (\<lambda>c. c < 128) s"
  shows "lower U (lower U s) = lower U s"
proof -
  have "list_all (\<lambda>c. c < 128) (map ascii_lower s)"
    using assms by (simp add: list_all_iff ascii_lower_ascii)
  then show ?thesis
    using assms by (simp add: lower_ascii ascii_lower_idem)
qed

lemma lower_no_unicode:
  "lower no_unicode s = map (\<lambda>c. if c < 128 then ascii_lower c else c) s"
proof -
  have "map (\<lambda>i. if s ! i < 128 then [ascii_lower (s ! i)] else no_unicode s i) [0..<length s]
      = map (\<lambda>i. [if s ! i < 128 then ascii_lower (s ! i) else s ! i]) [0..<length s]"
    by (simp add: no_unicode_def)
  then have "lower no_unicode s
      = concat (map (\<lambda>i. [if s ! i < 128 then ascii_lower (s ! i) else s ! i]) [0..<length s])"
    unfolding lower_def by (rule arg_cong)
  also have "\<dots> = map (\<lambda>i. if s ! i < 128 then ascii_lower (s ! i) else s ! i) [0..<length s]"
    by (simp only: concat_map_singleton)
  also have "\<dots> = map (\<lambda>c. if c < 128 then ascii_lower c else c) (map ((!) s) [0..<length s])"
    by (simp only: map_map comp_def)
  also have "\<dots> = map (\<lambda>c. if c < 128 then ascii_lower c else c) s"
    by (simp only: map_nth)
  finally show ?thesis .
qed

lemma lower_no_unicode_idem: "lower no_unicode (lower no_unicode s) = lower no_unicode s"
  by (simp add: lower_no_unicode ascii_lower_idem ascii_lower_ascii)

lemma lower_PIZZA:
  "lower U (lit ''PIZZA'') = lit ''pizza''" "lower U (lit ''Pizza'') = lit ''pizza''"
  "lower U (lit ''pIzZa'') = lit ''pizza''" "lower U (lit ''pizza'') = lit ''pizza''"
  by (simp_all add: lower_ascii lit_def ascii_lower_def)

lemma lower_examples:
  "lower U (lit ''sushi'') = lit ''sushi''" "lower U (lit ''burger'') = lit ''burger''"
  "lower U (lit ''italian'') = lit ''italian''"
  by (simp_all add: lower_ascii lit_def ascii_lower_def)

lemma no_keyword_examples:
  "\<not> sublist (lit ''pizza'') (lit ''sushi'')" "\<not> sublist (lit ''japanese'') (lit ''sushi'')"
  "\<not> sublist (lit ''pizza'') (lit ''burger'')" "\<not> sublist (lit ''japanese'') (lit ''burger'')"
  "\<not> sublist (lit ''pizza'') (lit ''italian'')" "\<not> sublist (lit ''japanese'') (lit ''italian'')"
  unfolding py_in_sublist [symmetric] by (simp_all add: lit_def)

lemma not_pizza_Nil: "\<not> sublist (lit ''pizza'') []" "\<not> sublist (lit ''japanese'') []"
  by (simp_all add: lit_def)

section \<open>Lower-casing twice\<close>

text \<open>
  Every range of the table is checked against the three special ranges and the table
  itself: what a code point becomes is never a code point that lower-casing changes.
\<close>

lemmas table_eval =
  lower_block_def safe_def clear_def far_def apart_def lower_block_bounds_def lower_block_ids_def
  special_ranges_def

lemma safe_block_0: "list_all safe (lower_block 0)"
  by (simp add: table_eval)

lemma safe_block_1: "list_all safe (lower_block 1)"
  by (simp add: table_eval)

lemma safe_block_2: "list_all safe (lower_block 2)"
  by (simp add: table_eval)

lemma safe_block_3: "list_all safe (lower_block 3)"
  by (simp add: table_eval)

lemma safe_block_4: "list_all safe (lower_block 4)"
  by (simp add: table_eval)

lemma safe_block_5: "list_all safe (lower_block 5)"
  by (simp add: table_eval)

lemma safe_block_6: "list_all safe (lower_block 6)"
  by (simp add: table_eval)

lemma safe_block_7: "list_all safe (lower_block 7)"
  by (simp add: table_eval)

lemma safe_block_8: "list_all safe (lower_block 8)"
  by (simp add: table_eval)

lemma safe_block_9: "list_all safe (lower_block 9)"
  by (simp add: table_eval)

lemma safe_block_10: "list_all safe (lower_block 10)"
  by (simp add: table_eval)

lemma safe_block_11: "list_all safe (lower_block 11)"
  by (simp add: table_eval)

lemma safe_block_12: "list_all safe (lower_block 12)"
  by (simp add: table_eval)

lemma safe_block_13: "list_all safe (lower_block 13)"
  by (simp add: table_eval)

lemma safe_block_14: "list_all safe (lower_block 14)"
  by (simp add: table_eval)

lemma safe_blocks: "list_all (\<lambda>k. list_all safe (lower_block k)) lower_block_ids"
  unfolding lower_block_ids_def
  by (simp only: list.pred_inject simp_thms
      safe_block_0 safe_block_1 safe_block_2 safe_block_3 safe_block_4
      safe_block_5 safe_block_6 safe_block_7 safe_block_8 safe_block_9
      safe_block_10 safe_block_11 safe_block_12 safe_block_13 safe_block_14)

lemma blocks_within_bounds: "list_all within_bounds lower_block_ids"
  by (simp add: within_bounds_def lower_block_def lower_block_bounds_def lower_block_ids_def)

lemma clear_specials: "clear 0x307 0x307 1 True" "clear 0x3C2 0x3C2 1 True" "clear 0x3C3 0x3C3 1 True"
  by (simp_all add: table_eval)

lemma apart_sound:
  assumes "apart a b st one d" and "a \<le> e" and "e \<le> b"
    and "st = 2 \<longrightarrow> (e - a) mod 2 = 0" and "one \<longrightarrow> e = a"
  shows "\<not> in_range e d"
proof (cases d)
  case (fields lo' hi' st' tg')
  show ?thesis
  proof (cases "hi' < a \<or> b < lo'")
    case True
    with assms(2,3) show ?thesis
      by (auto simp add: in_range_def fields)
  next
    case False
    with assms(1) have
      c: "(st = 2 \<and> st' = 2 \<and> (a + lo') mod 2 = 1)
          \<or> (one \<and> \<not> (lo' \<le> a \<and> a \<le> hi' \<and> (a - lo') mod st' = 0))"
      by (simp add: apart_def fields split: if_splits)
    show ?thesis
    proof (rule ccontr)
      assume "\<not> \<not> in_range e d"
      then have i: "lo' \<le> e" "e \<le> hi'" "(e - lo') mod st' = 0"
        by (simp_all add: in_range_def fields)
      from c show False
      proof
        assume p: "st = 2 \<and> st' = 2 \<and> (a + lo') mod 2 = 1"
        with assms(4) have "(e - a) mod 2 = 0" by simp
        moreover from p i have "(e - lo') mod 2 = 0" by simp
        ultimately show False
          using p assms(2) i(1) by presburger
      next
        assume "one \<and> \<not> (lo' \<le> a \<and> a \<le> hi' \<and> (a - lo') mod st' = 0)"
        with assms(5) i show False by simp
      qed
    qed
  qed
qed

lemma far_sound:
  assumes "far a b (L, H)" and "a \<le> e" and "e \<le> b" and "L \<le> lo'" and "hi' \<le> H"
  shows "\<not> in_range e (lo', hi', st', tg')"
  using assms by (auto simp add: far_def in_range_def split: if_splits)

lemma lower_ranges_blocks:
  "d \<in> set lower_ranges \<longleftrightarrow> (\<exists>k \<in> set lower_block_ids. d \<in> set (lower_block k))"
  by (auto simp add: lower_ranges_def)

lemma block_bounds:
  assumes "k \<in> set lower_block_ids" and "(lo', hi', st', tg') \<in> set (lower_block k)"
    and "lower_block_bounds k = (L, H)"
  shows "128 \<le> L \<and> L \<le> lo' \<and> hi' \<le> H"
proof -
  from blocks_within_bounds assms(1) have "within_bounds k"
    by (simp add: list_all_iff)
  with assms(2,3) show ?thesis
    by (auto simp add: within_bounds_def list_all_iff)
qed

lemma clear_sound:
  assumes "clear a b st one" and "a \<le> e" and "e \<le> b"
    and "st = 2 \<longrightarrow> (e - a) mod 2 = 0" and "one \<longrightarrow> e = a"
  shows "fixed_point e"
  unfolding fixed_point_def list_all_iff
proof
  fix d
  assume "d \<in> set (special_ranges @ lower_ranges)"
  then consider "d \<in> set special_ranges" | "d \<in> set lower_ranges"
    by auto
  then show "\<not> in_range e d"
  proof cases
    case 1
    with assms(1) have "apart a b st one d"
      unfolding clear_def list_all_iff by blast
    then show ?thesis
      using assms(2-5) by (rule apart_sound)
  next
    case 2
    then obtain k where k: "k \<in> set lower_block_ids" and d: "d \<in> set (lower_block k)"
      by (auto simp add: lower_ranges_blocks)
    obtain L H where b: "lower_block_bounds k = (L, H)"
      by (cases "lower_block_bounds k")
    obtain lo' hi' st' tg' where f: "d = (lo', hi', st', tg')"
      by (cases d)
    from assms(1) have
      "\<forall>k \<in> set lower_block_ids. if far a b (lower_block_bounds k) then True
          else list_all (apart a b st one) (lower_block k)"
      unfolding clear_def list_all_iff by blast
    with k have
      c: "if far a b (lower_block_bounds k) then True
          else list_all (apart a b st one) (lower_block k)"
      by blast
    show ?thesis
    proof (cases "far a b (lower_block_bounds k)")
      case True
      with b have "far a b (L, H)" by simp
      moreover from block_bounds [OF k d [unfolded f] b] have "L \<le> lo'" "hi' \<le> H"
        by simp_all
      ultimately show ?thesis
        unfolding f using assms(2,3) by (intro far_sound)
    next
      case False
      with c have "list_all (apart a b st one) (lower_block k)"
        by simp
      with d have "apart a b st one d"
        unfolding list_all_iff by blast
      then show ?thesis
        using assms(2-5) by (rule apart_sound)
    qed
  qed
qed

lemma safe_sound:
  assumes "safe (lo, hi, st, tg)" and "in_range c (lo, hi, st, tg)"
  shows "fixed_point (tg + (c - lo))"
proof -
  from assms(1) have "clear tg (tg + (hi - lo)) st (lo = hi)"
    by (simp add: safe_def)
  moreover have "tg \<le> tg + (c - lo)" by simp
  moreover from assms(2) have "lo \<le> c" and "c \<le> hi"
    by (simp_all add: in_range_def)
  then have "tg + (c - lo) \<le> tg + (hi - lo)"
    by arith
  moreover from assms(2) have "st = 2 \<longrightarrow> (tg + (c - lo) - tg) mod 2 = 0"
    by (auto simp add: in_range_def)
  moreover from assms(2) have "lo = hi \<longrightarrow> tg + (c - lo) = tg"
    by (auto simp add: in_range_def)
  ultimately show ?thesis
    by (rule clear_sound)
qed

lemma all_safe: "r \<in> set lower_ranges \<Longrightarrow> safe r"
  using safe_blocks by (auto simp add: lower_ranges_blocks list_all_iff)

lemma unicode_lower_char_fixed:
  assumes "128 \<le> c" and "c \<noteq> 0x130" and "c \<noteq> 0x3A3"
  shows "fixed_point (unicode_lower_char c)"
proof (cases "find (in_range c) lower_ranges")
  case None
  then have "\<forall>d \<in> set lower_ranges. \<not> in_range c d"
    by (auto simp add: find_None_iff)
  moreover from assms have "\<forall>d \<in> set special_ranges. \<not> in_range c d"
    by (simp add: special_ranges_def in_range_def)
  ultimately have "fixed_point c"
    by (auto simp add: fixed_point_def list_all_iff)
  with None show ?thesis
    by (simp add: unicode_lower_char_def)
next
  case (Some r)
  obtain lo hi st tg where f: "r = (lo, hi, st, tg)"
    by (cases r)
  from Some have m: "r \<in> set lower_ranges" and i: "in_range c r"
    by (auto simp add: find_Some_iff in_set_conv_nth)
  from m have s: "safe r"
    by (rule all_safe)
  from s i have "fixed_point (tg + (c - lo))"
    unfolding f by (rule safe_sound)
  with Some f show ?thesis
    by (simp add: unicode_lower_char_def)
qed

lemma ascii_lower_fixed:
  assumes "c < 128"
  shows "fixed_point (ascii_lower c)"
  unfolding fixed_point_def list_all_iff
proof
  fix d
  assume "d \<in> set (special_ranges @ lower_ranges)"
  then consider "d \<in> set special_ranges" | "d \<in> set lower_ranges"
    by auto
  then show "\<not> in_range (ascii_lower c) d"
  proof cases
    case 1
    with assms show ?thesis
      by (auto simp add: special_ranges_def in_range_def ascii_lower_def)
  next
    case 2
    then obtain k where k: "k \<in> set lower_block_ids" and d: "d \<in> set (lower_block k)"
      by (auto simp add: lower_ranges_blocks)
    obtain L H where b: "lower_block_bounds k = (L, H)"
      by (cases "lower_block_bounds k")
    obtain lo' hi' st' tg' where f: "d = (lo', hi', st', tg')"
      by (cases d)
    from block_bounds [OF k d [unfolded f] b] have "128 \<le> lo'"
      by simp
    moreover from assms have "ascii_lower c < 128"
      by (simp add: ascii_lower_def)
    ultimately show ?thesis
      by (simp add: in_range_def f)
  qed
qed

lemma special_outputs_fixed:
  "fixed_point 0x69" "fixed_point 0x307" "fixed_point 0x3C2" "fixed_point 0x3C3"
proof -
  have "fixed_point (ascii_lower 0x69)"
    by (rule ascii_lower_fixed) simp
  then show "fixed_point 0x69"
    by (simp add: ascii_lower_def)
  show "fixed_point 0x307"
    by (rule clear_sound [OF clear_specials(1)]) simp_all
  show "fixed_point 0x3C2"
    by (rule clear_sound [OF clear_specials(2)]) simp_all
  show "fixed_point 0x3C3"
    by (rule clear_sound [OF clear_specials(3)]) simp_all
qed

lemma fixed_point_not_changed:
  assumes "fixed_point e"
  shows "e < 128 \<longrightarrow> ascii_lower e = e"
    and "e \<noteq> 0x130" and "e \<noteq> 0x3A3" and "unicode_lower_char e = e"
proof -
  from assms have s: "\<forall>d \<in> set special_ranges. \<not> in_range e d"
    and l: "\<forall>d \<in> set lower_ranges. \<not> in_range e d"
    by (auto simp add: fixed_point_def list_all_iff)
  from s show "e < 128 \<longrightarrow> ascii_lower e = e"
    by (auto simp add: special_ranges_def in_range_def ascii_lower_def)
  from s show "e \<noteq> 0x130" and "e \<noteq> 0x3A3"
    by (auto simp add: special_ranges_def in_range_def)
  from l have "find (in_range e) lower_ranges = None"
    by (auto simp add: find_None_iff)
  then show "unicode_lower_char e = e"
    by (simp add: unicode_lower_char_def)
qed

lemma lower_outputs_fixed: "list_all fixed_point (lower (py_unicode F) s)"
  unfolding list_all_iff
proof
  fix x
  assume "x \<in> set (lower (py_unicode F) s)"
  then obtain i where
    x: "x \<in> set (if s ! i < 128 then [ascii_lower (s ! i)] else py_unicode F s i)"
    unfolding lower_def set_concat set_map by blast
  have "list_all fixed_point (if s ! i < 128 then [ascii_lower (s ! i)] else py_unicode F s i)"
    using special_outputs_fixed
    by (simp add: py_unicode_def ascii_lower_fixed unicode_lower_char_fixed)
  with x show "fixed_point x"
    unfolding list_all_iff by blast
qed

lemma lower_of_fixed:
  assumes "list_all fixed_point s"
  shows "lower (py_unicode F) s = s"
proof -
  have "map (\<lambda>i. if s ! i < 128 then [ascii_lower (s ! i)] else py_unicode F s i) [0..<length s]
      = map (\<lambda>i. [s ! i]) [0..<length s]"
  proof (rule map_cong [OF refl])
    fix i
    assume "i \<in> set [0..<length s]"
    with assms have "fixed_point (s ! i)"
      by (simp add: list_all_length)
    from fixed_point_not_changed [OF this]
    show "(if s ! i < 128 then [ascii_lower (s ! i)] else py_unicode F s i) = [s ! i]"
      by (simp add: py_unicode_def)
  qed
  then have "lower (py_unicode F) s = concat (map (\<lambda>i. [s ! i]) [0..<length s])"
    unfolding lower_def by (rule arg_cong)
  also have "\<dots> = map ((!) s) [0..<length s]"
    by (simp only: concat_map_singleton)
  also have "\<dots> = s"
    by (simp only: map_nth)
  finally show ?thesis .
qed

lemma lower_py_unicode_idem:
  "lower (py_unicode F) (lower (py_unicode F) s) = lower (py_unicode F) s"
  by (rule lower_of_fixed) (rule lower_outputs_fixed)

section \<open>Statements that only write\<close>

lemma output_onlyI: "(\<And>\<sigma>. f \<sigma> = \<sigma>\<lparr>stdout := stdout \<sigma> @ t\<rparr>) \<Longrightarrow> output_only f"
  unfolding output_only_def by blast

lemma output_only_comp:
  assumes "output_only f" and "output_only g"
  shows "output_only (g \<circ> f)"
  unfolding output_only_def
proof
  fix \<sigma>
  from assms(1) obtain t where f: "f \<sigma> = \<sigma>\<lparr>stdout := stdout \<sigma> @ t\<rparr>"
    unfolding output_only_def by blast
  from assms(2) obtain u where "g (f \<sigma>) = (f \<sigma>)\<lparr>stdout := stdout (f \<sigma>) @ u\<rparr>"
    unfolding output_only_def by blast
  also have "\<dots> = \<sigma>\<lparr>stdout := stdout \<sigma> @ (t @ u)\<rparr>"
    by (simp add: f)
  finally have "(g \<circ> f) \<sigma> = \<sigma>\<lparr>stdout := stdout \<sigma> @ (t @ u)\<rparr>"
    by simp
  then show "\<exists>t. (g \<circ> f) \<sigma> = \<sigma>\<lparr>stdout := stdout \<sigma> @ t\<rparr>" ..
qed

lemma output_only_py_print: "output_only (py_print t)"
  by (rule output_onlyI [where t = "t @ [10]"]) (simp add: py_print_def)

lemma output_only_print_result: "output_only (print_result t)"
  unfolding print_result_def by (rule output_only_py_print)

lemma output_only_print_code: "output_only (print_code t)"
  unfolding print_code_def by (rule output_only_py_print)

lemma output_only_print_step: "output_only (print_step n t)"
  unfolding print_step_def by (rule output_only_py_print)

lemma output_only_print_header: "output_only (print_header t)"
proof -
  have "print_header t =
      py_print (BOLD @ BLUE @ replicate 60 61 @ RESET @ [10])
      \<circ> (py_print (BOLD @ BLUE @ center 60 t @ RESET)
      \<circ> py_print ([10] @ BOLD @ BLUE @ replicate 60 61 @ RESET))"
    by (rule ext) (simp add: print_header_def)
  then show ?thesis
    by (simp only: output_only_comp output_only_py_print)
qed

lemma output_only_fold:
  "(\<And>x. output_only (g x)) \<Longrightarrow> output_only (fold g xs)"
proof (induction xs)
  case Nil
  show ?case by (rule output_onlyI [where t = "[]"]) simp
next
  case (Cons x xs)
  have "fold g (x # xs) = fold g xs \<circ> g x"
    by simp
  with Cons show ?case
    by (simp only: output_only_comp)
qed

lemma output_only_print_results: "output_only (print_results ls)"
proof -
  have "print_results ls = fold print_result ls"
    by (rule ext) (simp add: print_results_def)
  then show ?thesis
    by (simp only: output_only_fold output_only_print_result)
qed

lemma output_only_frame:
  assumes "output_only f"
  shows "stdin (f \<sigma>) = stdin \<sigma>" and "environ (f \<sigma>) = environ \<sigma>"
    and "catalog (f \<sigma>) = catalog \<sigma>" and "prefix (stdout \<sigma>) (stdout (f \<sigma>))"
proof -
  from assms obtain t where "f \<sigma> = \<sigma>\<lparr>stdout := stdout \<sigma> @ t\<rparr>"
    unfolding output_only_def by blast
  then show "stdin (f \<sigma>) = stdin \<sigma>" and "environ (f \<sigma>) = environ \<sigma>"
    and "catalog (f \<sigma>) = catalog \<sigma>" and "prefix (stdout \<sigma>) (stdout (f \<sigma>))"
    by simp_all
qed

lemma print_results_writes:
  "print_results ls \<sigma> = \<sigma>\<lparr>stdout := stdout \<sigma> @ concat (map (\<lambda>l. GREEN @ l @ RESET @ [10]) ls)\<rparr>"
  unfolding print_results_def
  by (induction ls arbitrary: \<sigma>) (simp_all add: print_result_def py_print_def)

section \<open>The three branches and the records they show\<close>

lemma str_nat_digit: "n < 10 \<Longrightarrow> str_nat n = [48 + n]"
  by (simp add: str_nat.simps)

lemma float_str_45: "float_str (9 / 2) = lit ''4.5''"
  unfolding float_str_def by (simp add: Let_def str_nat_digit lit_def)

lemma float_str_48: "float_str (24 / 5) = lit ''4.8''"
  unfolding float_str_def by (simp add: Let_def str_nat_digit lit_def)

lemma float_str_43: "float_str (43 / 10) = lit ''4.3''"
  unfolding float_str_def by (simp add: Let_def str_nat_digit lit_def)

lemma pizza_renders: "rendering_of (sample_restaurants ! 0) (drop 2 pizza_response)"
  by (simp add: rendering_of_def sample_restaurants_def pizza_response_def indent_def
      float_str_45 lit_def)

lemma japanese_renders: "rendering_of (sample_restaurants ! 1) (drop 2 japanese_response)"
  by (simp add: rendering_of_def sample_restaurants_def japanese_response_def indent_def
      float_str_48 lit_def)

lemma fallback_renders: "rendering_of (sample_restaurants ! 2) (drop 2 fallback_response)"
  by (simp add: rendering_of_def sample_restaurants_def fallback_response_def indent_def
      float_str_43 lit_def)

lemma catalog_names:
  "name (sample_restaurants ! 0) = lit ''Joe's Pizza''"
  "name (sample_restaurants ! 1) = lit ''Sushi Nakazawa''"
  "name (sample_restaurants ! 2) = lit ''Shake Shack''"
  by (simp_all add: sample_restaurants_def)

lemma dispatch_pizza:
  "sublist (lit ''pizza'') (lower U query) \<Longrightarrow>
     simulated_response U query \<sigma> = print_results pizza_response \<sigma>"
  by (simp add: simulated_response_def py_in_sublist)

lemma dispatch_japanese:
  "\<not> sublist (lit ''pizza'') (lower U query) \<Longrightarrow>
   sublist (lit ''japanese'') (lower U query) \<Longrightarrow>
     simulated_response U query \<sigma> = print_results japanese_response \<sigma>"
  by (simp add: simulated_response_def py_in_sublist)

lemma dispatch_fallback:
  "\<not> sublist (lit ''pizza'') (lower U query) \<Longrightarrow>
   \<not> sublist (lit ''japanese'') (lower U query) \<Longrightarrow>
     simulated_response U query \<sigma> = print_results fallback_response \<sigma>"
  by (simp add: simulated_response_def py_in_sublist)

lemma simulated_response_cases:
  "simulated_response U query = print_results pizza_response
   \<or> simulated_response U query = print_results japanese_response
   \<or> simulated_response U query = print_results fallback_response"
  by (auto simp add: simulated_response_def fun_eq_iff)

lemma simulated_response_writes:
  "\<exists>t. \<forall>\<sigma>. simulated_response U query \<sigma> = \<sigma>\<lparr>stdout := stdout \<sigma> @ t\<rparr>"
  using simulated_response_cases [of U query] print_results_writes by metis

lemma output_only_simulated_response: "output_only (simulated_response U query)"
proof -
  have "simulated_response U query = print_results pizza_response
      \<or> simulated_response U query = print_results japanese_response
      \<or> simulated_response U query = print_results fallback_response"
    by (auto simp add: simulated_response_def fun_eq_iff)
  then show ?thesis
    by (auto simp add: output_only_print_results)
qed

lemma simulated_response_lower:
  "lower U (lower U query) = lower U query \<Longrightarrow>
     simulated_response U (lower U query) = simulated_response U query"
  by (rule ext) (simp add: simulated_response_def)

lemma simulated_response_cong:
  "lower U q1 = lower U q2 \<Longrightarrow> simulated_response U q1 = simulated_response U q2"
  by (rule ext) (simp add: simulated_response_def)

lemmas output_only_prints =
  output_only_py_print output_only_print_result output_only_print_code output_only_print_step
  output_only_print_header output_only_print_results output_only_simulated_response

text \<open>
  Claim C1. Whenever the lower-cased query contains \<^verbatim>\<open>pizza\<close> as a contiguous block, the
  dispatch prints the first branch, whatever else the query holds (nothing is asked about
  \<^verbatim>\<open>japanese\<close>); the lines of that branch render the first catalog record, and that
  record is the one named \<^verbatim>\<open>Joe's Pizza\<close>.
\<close>

theorem pizza_selects_joes_pizza:
  assumes "sublist (lit ''pizza'') (lower U query)"
  shows "simulated_response U query \<sigma> = print_results pizza_response \<sigma>
         \<and> rendering_of (sample_restaurants ! 0) (drop 2 pizza_response)
         \<and> name (sample_restaurants ! 0) = lit ''Joe's Pizza''"
  by (intro conjI dispatch_pizza pizza_renders catalog_names assms)

text \<open>A query with both keywords: the first branch wins.\<close>

theorem pizza_selects_joes_pizza_witness:
  "sublist (lit ''pizza'') (lower no_unicode (lit ''Japanese PIZZA''))
   \<and> sublist (lit ''japanese'') (lower no_unicode (lit ''Japanese PIZZA''))
   \<and> simulated_response no_unicode (lit ''Japanese PIZZA'') initial_state
       = print_results pizza_response initial_state
   \<and> rendering_of (sample_restaurants ! 0) (drop 2 pizza_response)
   \<and> name (sample_restaurants ! 0) = lit ''Joe's Pizza''"
proof -
  have l: "lower no_unicode (lit ''Japanese PIZZA'') = lit ''japanese pizza''"
    by (simp add: lower_ascii lit_def ascii_lower_def)
  have p: "sublist (lit ''pizza'') (lower no_unicode (lit ''Japanese PIZZA''))"
    unfolding l py_in_sublist [symmetric] by (simp add: lit_def)
  have j: "sublist (lit ''japanese'') (lower no_unicode (lit ''Japanese PIZZA''))"
    unfolding l py_in_sublist [symmetric] by (simp add: lit_def)
  from pizza_selects_joes_pizza [OF p, of initial_state] p j show ?thesis
    by simp
qed

text \<open>
  Claim C2. Whenever the lower-cased query does not contain \<^verbatim>\<open>pizza\<close> but contains
  \<^verbatim>\<open>japanese\<close>, the dispatch prints the second branch; its lines render the second
  catalog record, the one named \<^verbatim>\<open>Sushi Nakazawa\<close>.
\<close>

theorem japanese_selects_sushi_nakazawa:
  assumes "\<not> sublist (lit ''pizza'') (lower U query)"
    and "sublist (lit ''japanese'') (lower U query)"
  shows "simulated_response U query \<sigma> = print_results japanese_response \<sigma>
         \<and> rendering_of (sample_restaurants ! 1) (drop 2 japanese_response)
         \<and> name (sample_restaurants ! 1) = lit ''Sushi Nakazawa''"
  by (intro conjI dispatch_japanese japanese_renders catalog_names assms)

theorem japanese_selects_sushi_nakazawa_witness:
  "\<not> sublist (lit ''pizza'')
       (lower no_unicode (lit ''I want fancy Japanese food for a special occasion''))
   \<and> sublist (lit ''japanese'')
       (lower no_unicode (lit ''I want fancy Japanese food for a special occasion''))
   \<and> simulated_response no_unicode
        (lit ''I want fancy Japanese food for a special occasion'') initial_state
       = print_results japanese_response initial_state
   \<and> rendering_of (sample_restaurants ! 1) (drop 2 japanese_response)
   \<and> name (sample_restaurants ! 1) = lit ''Sushi Nakazawa''"
proof -
  have l: "lower no_unicode (lit ''I want fancy Japanese food for a special occasion'')
           = lit ''i want fancy japanese food for a special occasion''"
    by (simp add: lower_ascii lit_def ascii_lower_def)
  have p: "\<not> sublist (lit ''pizza'')
             (lower no_unicode (lit ''I want fancy Japanese food for a special occasion''))"
    unfolding l py_in_sublist [symmetric] by (simp add: lit_def)
  have j: "sublist (lit ''japanese'')
             (lower no_unicode (lit ''I want fancy Japanese food for a special occasion''))"
    unfolding l py_in_sublist [symmetric] by (simp add: lit_def)
  from japanese_selects_sushi_nakazawa [OF p j, of initial_state] p j show ?thesis
    by simp
qed

text \<open>
  Claim C3. The dispatch is total. For every query it prints one of the three branches and
  returns a state, never an exception; when the lower-cased query contains neither keyword,
  and in particular for the empty query, it prints the third branch, whose lines render the
  third catalog record, the one named \<^verbatim>\<open>Shake Shack\<close>.
\<close>

theorem fallback_is_total:
  "(simulated_response U query \<sigma> = print_results pizza_response \<sigma>
      \<or> simulated_response U query \<sigma> = print_results japanese_response \<sigma>
      \<or> simulated_response U query \<sigma> = print_results fallback_response \<sigma>)
   \<and> (\<exists>\<sigma>'. ok (simulated_response U query) \<sigma> = Inr \<sigma>')
   \<and> (\<not> sublist (lit ''pizza'') (lower U query) \<and> \<not> sublist (lit ''japanese'') (lower U query)
        \<longrightarrow> simulated_response U query \<sigma> = print_results fallback_response \<sigma>)
   \<and> simulated_response U [] \<sigma> = print_results fallback_response \<sigma>
   \<and> rendering_of (sample_restaurants ! 2) (drop 2 fallback_response)
   \<and> name (sample_restaurants ! 2) = lit ''Shake Shack''"
proof (intro conjI impI)
  show "simulated_response U query \<sigma> = print_results pizza_response \<sigma>
      \<or> simulated_response U query \<sigma> = print_results japanese_response \<sigma>
      \<or> simulated_response U query \<sigma> = print_results fallback_response \<sigma>"
    using simulated_response_cases [of U query] by auto
  show "\<exists>\<sigma>'. ok (simulated_response U query) \<sigma> = Inr \<sigma>'"
    by (simp add: ok_def)
  show "simulated_response U [] \<sigma> = print_results fallback_response \<sigma>"
    by (rule dispatch_fallback) (simp_all only: lower_Nil not_pizza_Nil not_False_eq_True)
  show "rendering_of (sample_restaurants ! 2) (drop 2 fallback_response)"
    by (rule fallback_renders)
  show "name (sample_restaurants ! 2) = lit ''Shake Shack''"
    by (rule catalog_names)
next
  assume "\<not> sublist (lit ''pizza'') (lower U query) \<and> \<not> sublist (lit ''japanese'') (lower U query)"
  then show "simulated_response U query \<sigma> = print_results fallback_response \<sigma>"
    by (simp add: dispatch_fallback)
qed

theorem fallback_is_total_witness:
  "\<not> sublist (lit ''pizza'') (lower no_unicode (lit ''Quick casual lunch under $20?''))
   \<and> \<not> sublist (lit ''japanese'') (lower no_unicode (lit ''Quick casual lunch under $20?''))
   \<and> simulated_response no_unicode (lit ''Quick casual lunch under $20?'') initial_state
       = print_results fallback_response initial_state
   \<and> simulated_response no_unicode [] initial_state = print_results fallback_response initial_state
   \<and> name (sample_restaurants ! 2) = lit ''Shake Shack''"
proof -
  have l: "lower no_unicode (lit ''Quick casual lunch under $20?'')
           = lit ''quick casual lunch under $20?''"
    by (simp add: lower_ascii lit_def ascii_lower_def)
  have p: "\<not> sublist (lit ''pizza'') (lower no_unicode (lit ''Quick casual lunch under $20?''))"
    unfolding l py_in_sublist [symmetric] by (simp add: lit_def)
  have j: "\<not> sublist (lit ''japanese'') (lower no_unicode (lit ''Quick casual lunch under $20?''))"
    unfolding l py_in_sublist [symmetric] by (simp add: lit_def)
  from fallback_is_total [of no_unicode "lit ''Quick casual lunch under $20?''" initial_state]
    fallback_is_total [of no_unicode "[]" initial_state] p j
  show ?thesis by blast
qed

text \<open>
  For any table, a query of ASCII code points, or one on which lower-casing twice gives
  what lower-casing once gives, is answered as its lower-cased form is.
\<close>

lemma simulated_response_lower_any_table:
  assumes "list_all (\<lambda>c. c < 128) query \<or> lower U (lower U query) = lower U query"
  shows "simulated_response U (lower U query) = simulated_response U query"
proof -
  from assms have "lower U (lower U query) = lower U query"
    using lower_idem_ascii by blast
  then show ?thesis
    by (rule simulated_response_lower)
qed

text \<open>
  Claim C4. Selection is case-insensitive: with the interpreter's lowercase table, and
  however capital sigmas are resolved, the dispatch does for the lower-cased form of a
  query what it does for the query, for every query. In particular \<^verbatim>\<open>PIZZA\<close>, \<^verbatim>\<open>Pizza\<close> and
  \<^verbatim>\<open>pIzZa\<close> are answered as \<^verbatim>\<open>pizza\<close> is, with any table.
\<close>

theorem selection_is_case_insensitive:
  "simulated_response (py_unicode F) (lower (py_unicode F) query)
     = simulated_response (py_unicode F) query
   \<and> simulated_response U (lit ''PIZZA'') = simulated_response U (lit ''pizza'')
   \<and> simulated_response U (lit ''Pizza'') = simulated_response U (lit ''pizza'')
   \<and> simulated_response U (lit ''pIzZa'') = simulated_response U (lit ''pizza'')"
proof -
  have "lower (py_unicode F) (lower (py_unicode F) query) = lower (py_unicode F) query"
    by (rule lower_py_unicode_idem)
  then have "simulated_response (py_unicode F) (lower (py_unicode F) query)
      = simulated_response (py_unicode F) query"
    by (rule simulated_response_lower)
  moreover have "simulated_response U (lit ''PIZZA'') = simulated_response U (lit ''pizza'')"
    by (rule simulated_response_cong) (simp only: lower_PIZZA)
  moreover have "simulated_response U (lit ''Pizza'') = simulated_response U (lit ''pizza'')"
    by (rule simulated_response_cong) (simp only: lower_PIZZA)
  moreover have "simulated_response U (lit ''pIzZa'') = simulated_response U (lit ''pizza'')"
    by (rule simulated_response_cong) (simp only: lower_PIZZA)
  ultimately show ?thesis by simp
qed

text \<open>
  Claim C5. In each of the three branches the hard-coded lines after the heading and the
  blank line are a rendering of the corresponding catalog record: its name, its rating to
  one decimal place after a star (4.5, 4.8 and 4.3), its location and its price tier, and
  its description, unchanged but for being wrapped over two indented lines.
\<close>

theorem responses_render_catalog:
  "rendering_of (sample_restaurants ! 0) (drop 2 pizza_response)
   \<and> rendering_of (sample_restaurants ! 1) (drop 2 japanese_response)
   \<and> rendering_of (sample_restaurants ! 2) (drop 2 fallback_response)
   \<and> float_str (rating (sample_restaurants ! 0)) = lit ''4.5''
   \<and> float_str (rating (sample_restaurants ! 1)) = lit ''4.8''
   \<and> float_str (rating (sample_restaurants ! 2)) = lit ''4.3''
   \<and> map name sample_restaurants = [lit ''Joe's Pizza'', lit ''Sushi Nakazawa'', lit ''Shake Shack'']"
proof -
  have "float_str (rating (sample_restaurants ! 0)) = lit ''4.5''"
    by (simp add: sample_restaurants_def float_str_45)
  moreover have "float_str (rating (sample_restaurants ! 1)) = lit ''4.8''"
    by (simp add: sample_restaurants_def float_str_48)
  moreover have "float_str (rating (sample_restaurants ! 2)) = lit ''4.3''"
    by (simp add: sample_restaurants_def float_str_43)
  moreover have "map name sample_restaurants
      = [lit ''Joe's Pizza'', lit ''Sushi Nakazawa'', lit ''Shake Shack'']"
    by (simp add: sample_restaurants_def)
  ultimately show ?thesis
    using pizza_renders japanese_renders fallback_renders by blast
qed

text \<open>
  Claim C8. Selection is deterministic and stateless: for a query there is one text that
  the dispatch appends to standard output from every state, leaving the rest of the state
  as it was; evaluating it twice appends that same text twice.
\<close>

theorem selection_is_stateless:
  "\<exists>t. \<forall>\<sigma>. simulated_response U query \<sigma> = \<sigma>\<lparr>stdout := stdout \<sigma> @ t\<rparr>
        \<and> simulated_response U query (simulated_response U query \<sigma>)
            = \<sigma>\<lparr>stdout := (stdout \<sigma> @ t) @ t\<rparr>"
proof -
  from simulated_response_writes [of U query] obtain t where
    t: "\<And>\<sigma>. simulated_response U query \<sigma> = \<sigma>\<lparr>stdout := stdout \<sigma> @ t\<rparr>"
    by blast
  have "simulated_response U query (simulated_response U query \<sigma>)
      = \<sigma>\<lparr>stdout := (stdout \<sigma> @ t) @ t\<rparr>" for \<sigma>
    by (subst t, subst t) simp
  with t show ?thesis by blast
qed

text \<open>
  Claim C9. Selection does not depend on the environment: changing the environment before
  the dispatch is the same as changing it after, the dispatch leaves the environment as it
  found it, and under any two environments it writes the same output.
\<close>

theorem selection_ignores_environment:
  "simulated_response U query (\<sigma>\<lparr>environ := e\<rparr>) = (simulated_response U query \<sigma>)\<lparr>environ := e\<rparr>
   \<and> environ (simulated_response U query \<sigma>) = environ \<sigma>
   \<and> stdout (simulated_response U query (\<sigma>\<lparr>environ := e1\<rparr>))
       = stdout (simulated_response U query (\<sigma>\<lparr>environ := e2\<rparr>))"
proof -
  from simulated_response_writes [of U query] obtain t where
    t: "\<And>\<sigma>. simulated_response U query \<sigma> = \<sigma>\<lparr>stdout := stdout \<sigma> @ t\<rparr>"
    by blast
  show ?thesis
    by (simp add: t)
qed

text \<open>
  Claim C10. Only the two keywords influence selection: two queries that agree on whether
  their lower-cased forms contain \<^verbatim>\<open>pizza\<close> and on whether they contain \<^verbatim>\<open>japanese\<close> are
  answered alike, and the answer does not depend on what the catalog variable holds. Queries
  made of another record's own terms, \<^verbatim>\<open>sushi\<close>, \<^verbatim>\<open>burger\<close> or \<^verbatim>\<open>italian\<close>, get the third
  branch.
\<close>

theorem only_keywords_matter:
  "(((sublist (lit ''pizza'') (lower U qa) \<longleftrightarrow> sublist (lit ''pizza'') (lower U qb))
      \<and> (sublist (lit ''japanese'') (lower U qa) \<longleftrightarrow> sublist (lit ''japanese'') (lower U qb)))
     \<longrightarrow> simulated_response U qa = simulated_response U qb)
   \<and> simulated_response U query (\<sigma>\<lparr>catalog := c\<rparr>) = (simulated_response U query \<sigma>)\<lparr>catalog := c\<rparr>
   \<and> simulated_response U (lit ''sushi'') \<sigma> = print_results fallback_response \<sigma>
   \<and> simulated_response U (lit ''burger'') \<sigma> = print_results fallback_response \<sigma>
   \<and> simulated_response U (lit ''italian'') \<sigma> = print_results fallback_response \<sigma>"
proof (intro conjI impI)
  assume "(sublist (lit ''pizza'') (lower U qa) \<longleftrightarrow> sublist (lit ''pizza'') (lower U qb))
      \<and> (sublist (lit ''japanese'') (lower U qa) \<longleftrightarrow> sublist (lit ''japanese'') (lower U qb))"
  then show "simulated_response U qa = simulated_response U qb"
    by (intro ext) (simp add: simulated_response_def py_in_sublist)
next
  from simulated_response_writes [of U query] obtain t where
    t: "\<And>\<sigma>. simulated_response U query \<sigma> = \<sigma>\<lparr>stdout := stdout \<sigma> @ t\<rparr>"
    by blast
  show "simulated_response U query (\<sigma>\<lparr>catalog := c\<rparr>)
      = (simulated_response U query \<sigma>)\<lparr>catalog := c\<rparr>"
    by (simp add: t)
next
  show "simulated_response U (lit ''sushi'') \<sigma> = print_results fallback_response \<sigma>"
    by (rule dispatch_fallback) (simp_all only: lower_examples no_keyword_examples not_False_eq_True)
  show "simulated_response U (lit ''burger'') \<sigma> = print_results fallback_response \<sigma>"
    by (rule dispatch_fallback) (simp_all only: lower_examples no_keyword_examples not_False_eq_True)
  show "simulated_response U (lit ''italian'') \<sigma> = print_results fallback_response \<sigma>"
    by (rule dispatch_fallback) (simp_all only: lower_examples no_keyword_examples not_False_eq_True)
qed

theorem only_keywords_matter_witness:
  "(sublist (lit ''pizza'') (lower no_unicode (lit ''sushi''))
      \<longleftrightarrow> sublist (lit ''pizza'') (lower no_unicode (lit ''burger'')))
   \<and> (sublist (lit ''japanese'') (lower no_unicode (lit ''sushi''))
      \<longleftrightarrow> sublist (lit ''japanese'') (lower no_unicode (lit ''burger'')))
   \<and> simulated_response no_unicode (lit ''sushi'') = simulated_response no_unicode (lit ''burger'')
   \<and> simulated_response no_unicode (lit ''sushi'') initial_state
       = print_results fallback_response initial_state"
proof -
  have a: "sublist (lit ''pizza'') (lower no_unicode (lit ''sushi''))
      \<longleftrightarrow> sublist (lit ''pizza'') (lower no_unicode (lit ''burger''))"
    by (simp only: lower_examples no_keyword_examples)
  have b: "sublist (lit ''japanese'') (lower no_unicode (lit ''sushi''))
      \<longleftrightarrow> sublist (lit ''japanese'') (lower no_unicode (lit ''burger''))"
    by (simp only: lower_examples no_keyword_examples)
  from only_keywords_matter [where U = no_unicode and qa = "lit ''sushi''" and qb = "lit ''burger''"
      and \<sigma> = initial_state]
    a b show ?thesis by blast
qed

section \<open>Reading standard input\<close>

lemma consumes_ok: "output_only f \<Longrightarrow> consumes 0 (ok f)"
  unfolding output_only_def consumes_def ok_def
proof (intro allI)
  fix \<sigma>
  assume "\<forall>\<sigma>. \<exists>t. f \<sigma> = \<sigma>\<lparr>stdout := stdout \<sigma> @ t\<rparr>"
  then obtain t where "f \<sigma> = \<sigma>\<lparr>stdout := stdout \<sigma> @ t\<rparr>" by blast
  then show "if length (stdin \<sigma>) < 0 then Inr (f \<sigma>) = Inl EOFError
     else \<exists>\<sigma>'. Inr (f \<sigma>) = Inr \<sigma>' \<and> stdin \<sigma>' = drop 0 (stdin \<sigma>) \<and> environ \<sigma>' = environ \<sigma>
        \<and> prefix (stdout \<sigma>) (stdout \<sigma>')"
    by simp
qed

lemma consumes_py_input: "consumes 1 (py_input p)"
  unfolding consumes_def py_input_def
  by (auto split: list.splits simp: drop_Suc)

lemma consumes_run_Nil: "consumes 0 (run [])"
  unfolding consumes_def by simp

lemma consumes_run_Cons:
  assumes f: "consumes k f" and fs: "consumes m (run fs)"
  shows "consumes (k + m) (run (f # fs))"
  unfolding consumes_def
proof (intro allI)
  fix \<sigma>
  show "if length (stdin \<sigma>) < k + m then run (f # fs) \<sigma> = Inl EOFError
     else \<exists>\<sigma>'. run (f # fs) \<sigma> = Inr \<sigma>' \<and> stdin \<sigma>' = drop (k + m) (stdin \<sigma>)
        \<and> environ \<sigma>' = environ \<sigma> \<and> prefix (stdout \<sigma>) (stdout \<sigma>')"
  proof (cases "length (stdin \<sigma>) < k")
    case True
    with f have "f \<sigma> = Inl EOFError" unfolding consumes_def by (auto split: if_splits)
    with True show ?thesis by simp
  next
    case False
    with f obtain \<sigma>1 where 1: "f \<sigma> = Inr \<sigma>1" "stdin \<sigma>1 = drop k (stdin \<sigma>)"
      "environ \<sigma>1 = environ \<sigma>" "prefix (stdout \<sigma>) (stdout \<sigma>1)"
      unfolding consumes_def by (metis (full_types))
    show ?thesis
    proof (cases "length (stdin \<sigma>1) < m")
      case True
      with fs have "run fs \<sigma>1 = Inl EOFError" unfolding consumes_def by (auto split: if_splits)
      with True 1 False show ?thesis by auto
    next
      case m: False
      with fs obtain \<sigma>2 where 2: "run fs \<sigma>1 = Inr \<sigma>2" "stdin \<sigma>2 = drop m (stdin \<sigma>1)"
        "environ \<sigma>2 = environ \<sigma>1" "prefix (stdout \<sigma>1) (stdout \<sigma>2)"
        unfolding consumes_def by (metis (full_types))
      from 1 2 have "prefix (stdout \<sigma>) (stdout \<sigma>2)" by (metis prefix_order.trans)
      with 1 2 m False show ?thesis by (auto simp: add.commute)
    qed
  qed
qed

lemma consumes_Cons_ok:
  "output_only f \<Longrightarrow> consumes m (run fs) \<Longrightarrow> consumes m (run (ok f # fs))"
  using consumes_run_Cons [OF consumes_ok, of f m fs] by simp

lemma consumes_Cons_input:
  "consumes m (run fs) \<Longrightarrow> consumes (Suc m) (run (py_input p # fs))"
  using consumes_run_Cons [OF consumes_py_input, of m fs p] by simp

lemma run_append:
  "run (xs @ ys) \<sigma> = (case run xs \<sigma> of Inl e \<Rightarrow> Inl e | Inr \<sigma>' \<Rightarrow> run ys \<sigma>')"
  by (induction xs arbitrary: \<sigma>) (simp_all split: sum.splits)

lemma consumes_append:
  assumes "consumes k (run xs)" and "consumes m (run ys)"
  shows "consumes (k + m) (run (xs @ ys))"
proof -
  have "run (xs @ ys) = run [run xs, run ys]"
    by (rule ext) (simp add: run_append split: sum.splits)
  moreover have "consumes (k + (m + 0)) (run [run xs, run ys])"
    by (intro consumes_run_Cons assms consumes_run_Nil)
  ultimately show ?thesis
    by simp
qed

lemma consumes_before_catalog: "consumes 3 (run before_catalog)"
  unfolding before_catalog_def numeral_3_eq_3
  by (intro consumes_Cons_ok consumes_Cons_input consumes_run_Nil output_only_prints)

lemma consumes_closing: "consumes 1 (run closing)"
  unfolding closing_def One_nat_def
  by (intro consumes_Cons_ok consumes_Cons_input consumes_run_Nil output_only_prints)

lemma consumes_query_iteration:
  "consumes (if i < length queries then 1 else 0) (run (query_iteration U i query))"
proof (cases "i < length queries")
  case True
  have "consumes (Suc 0) (run (query_iteration U i query))"
    unfolding query_iteration_def using True
    by (simp only: if_True)
      (intro consumes_Cons_ok consumes_Cons_input consumes_run_Nil output_only_prints)
  with True show ?thesis by simp
next
  case False
  have "consumes (0 + 0) (run (query_iteration U i query))"
    unfolding query_iteration_def using False
    by (simp only: if_False)
      (intro consumes_Cons_ok consumes_run_Cons consumes_run_Nil output_only_prints)
  with False show ?thesis by simp
qed

lemma query_loop_unfold:
  "query_loop U =
     [run (query_iteration U 1 (queries ! 0)),
      run (query_iteration U 2 (queries ! 1)),
      run (query_iteration U 3 (queries ! 2))]"
  by (simp add: query_loop_def queries_def numeral_2_eq_2 numeral_3_eq_3)

lemma length_queries: "length queries = 3"
  by (simp add: queries_def)

lemma consumes_query_section:
  "consumes 2 (run (ok (print_header t) # query_loop U))"
proof -
  have 1: "consumes 1 (run (query_iteration U 1 (queries ! 0)))"
    using consumes_query_iteration [of 1 U "queries ! 0"] by (simp add: length_queries)
  have 2: "consumes 1 (run (query_iteration U 2 (queries ! 1)))"
    using consumes_query_iteration [of 2 U "queries ! 1"] by (simp add: length_queries)
  have 3: "consumes 0 (run (query_iteration U 3 (queries ! 2)))"
    using consumes_query_iteration [of 3 U "queries ! 2"] by (simp add: length_queries)
  have "consumes (1 + (1 + (0 + 0))) (run (query_loop U))"
    unfolding query_loop_unfold
    by (intro consumes_run_Cons 1 2 3 consumes_run_Nil)
  then have "consumes 2 (run (query_loop U))"
    by (simp add: numeral_2_eq_2)
  then show ?thesis
    by (intro consumes_Cons_ok output_only_prints)
qed

lemma consumes_add_data: "consumes 1 (run (assign_sample_restaurants # add_data))"
proof -
  define f where "f = (\<lambda>\<sigma>. fold (\<lambda>r. print_result (added_line r)) sample_restaurants
      (py_print [] (print_code (lit ''engine.add_restaurants(sample_restaurants)'')
         (\<sigma>\<lparr>catalog := Some sample_restaurants\<rparr>))))"
  have out: "output_only (fold (\<lambda>r. print_result (added_line r)) sample_restaurants
      \<circ> (py_print [] \<circ> print_code (lit ''engine.add_restaurants(sample_restaurants)'')))"
    by (intro output_only_comp output_only_fold output_only_prints)
  have eq: "run (assign_sample_restaurants # add_data) =
      run [ok f, py_input ([10] @ BOLD @ lit ''Press Enter to run queries...'' @ RESET)]"
    by (rule ext)
      (simp add: assign_sample_restaurants_def add_data_def ok_def print_added_def f_def
        output_only_frame [OF output_only_py_print] output_only_frame [OF output_only_print_code])
  have "consumes 0 (ok f)"
    unfolding consumes_def ok_def
  proof
    fix \<sigma>
    have "f \<sigma> = (fold (\<lambda>r. print_result (added_line r)) sample_restaurants
      \<circ> (py_print [] \<circ> print_code (lit ''engine.add_restaurants(sample_restaurants)'')))
        (\<sigma>\<lparr>catalog := Some sample_restaurants\<rparr>)"
      by (simp add: f_def)
    with output_only_frame [OF out, of "\<sigma>\<lparr>catalog := Some sample_restaurants\<rparr>"]
    show "if length (stdin \<sigma>) < 0 then Inr (f \<sigma>) = Inl EOFError
       else \<exists>\<sigma>'. Inr (f \<sigma>) = Inr \<sigma>' \<and> stdin \<sigma>' = drop 0 (stdin \<sigma>) \<and> environ \<sigma>' = environ \<sigma>
          \<and> prefix (stdout \<sigma>) (stdout \<sigma>')"
      by simp
  qed
  then have "consumes (0 + Suc 0) (run [ok f, py_input ([10] @ BOLD @ lit ''Press Enter to run queries...'' @ RESET)])"
    by (intro consumes_run_Cons consumes_Cons_input consumes_run_Nil)
  then show ?thesis
    by (simp add: eq)
qed

lemma main_unfold:
  "main U = run (before_catalog @ (assign_sample_restaurants # add_data)
      @ (ok (print_header (lit ''Step 3: Natural Language Queries'')) # query_loop U) @ closing)"
  by (rule ext) (simp add: main_def after_catalog_def)

text \<open>The script pauses seven times: five fixed pauses and one after each query but the last.\<close>

lemma consumes_main: "consumes 7 (main U)"
proof -
  have "consumes (3 + (1 + (2 + 1))) (main U)"
    unfolding main_unfold
    by (intro consumes_append consumes_before_catalog consumes_add_data consumes_query_section
        consumes_closing)
  then show ?thesis by (simp add: eval_nat_numeral)
qed





section \<open>The catalog after its construction\<close>

lemma keeps_catalog_ok: "output_only f \<Longrightarrow> keeps_catalog (ok f)"
  unfolding keeps_catalog_def ok_def by (auto simp add: output_only_frame)

lemma keeps_catalog_py_input: "keeps_catalog (py_input p)"
  unfolding keeps_catalog_def py_input_def by (auto split: list.splits)

lemma keeps_catalog_print_added: "keeps_catalog print_added"
proof -
  have "output_only (fold (\<lambda>r. print_result (added_line r)) rs)" for rs
    by (intro output_only_fold output_only_print_result)
  then show ?thesis
    unfolding keeps_catalog_def print_added_def
    by (auto split: option.splits simp add: output_only_frame)
qed

lemma keeps_catalog_run: "list_all keeps_catalog fs \<Longrightarrow> keeps_catalog (run fs)"
proof (induction fs)
  case Nil
  show ?case by (simp add: keeps_catalog_def)
next
  case (Cons f fs)
  then have f: "keeps_catalog f" and fs: "keeps_catalog (run fs)"
    by simp_all
  show ?case
    unfolding keeps_catalog_def
  proof (intro allI impI)
    fix \<sigma> \<sigma>'
    assume r: "run (f # fs) \<sigma> = Inr \<sigma>'"
    then obtain \<sigma>1 where 1: "f \<sigma> = Inr \<sigma>1" and 2: "run fs \<sigma>1 = Inr \<sigma>'"
      by (auto split: sum.splits)
    from f 1 have "catalog \<sigma>1 = catalog \<sigma>" unfolding keeps_catalog_def by blast
    moreover from fs 2 have "catalog \<sigma>' = catalog \<sigma>1" unfolding keeps_catalog_def by blast
    ultimately show "catalog \<sigma>' = catalog \<sigma>" by simp
  qed
qed

lemma keeps_catalog_query_iteration: "keeps_catalog (run (query_iteration U i query))"
  by (rule keeps_catalog_run)
    (simp add: query_iteration_def keeps_catalog_ok keeps_catalog_py_input output_only_prints
      keeps_catalog_run)

lemma keeps_catalog_after: "list_all keeps_catalog (after_catalog U)"
proof -
  have "list_all keeps_catalog add_data"
    by (simp add: add_data_def keeps_catalog_ok keeps_catalog_py_input keeps_catalog_print_added
        output_only_prints)
  moreover have "list_all keeps_catalog (query_loop U)"
    by (simp add: query_loop_unfold keeps_catalog_query_iteration)
  moreover have "list_all keeps_catalog closing"
    by (simp add: closing_def keeps_catalog_ok keeps_catalog_py_input output_only_prints)
  ultimately show ?thesis
    by (simp add: after_catalog_def keeps_catalog_ok output_only_prints)
qed

lemma catalog_after_main:
  assumes "main U \<sigma> = Inr \<sigma>'"
  shows "catalog \<sigma>' = Some sample_restaurants"
proof -
  from assms obtain \<sigma>1 \<sigma>2 where
    a: "assign_sample_restaurants \<sigma>1 = Inr \<sigma>2" and r: "run (after_catalog U) \<sigma>2 = Inr \<sigma>'"
    by (auto simp add: main_def run_append split: sum.splits)
  from a have "catalog \<sigma>2 = Some sample_restaurants"
    by (auto simp add: assign_sample_restaurants_def ok_def)
  moreover from keeps_catalog_run [OF keeps_catalog_after, of U] r
  have "catalog \<sigma>' = catalog \<sigma>2"
    unfolding keeps_catalog_def by blast
  ultimately show ?thesis by simp
qed

lemma catalog_well_formed:
  "list_all (\<lambda>r. name r \<noteq> [] \<and> 0 \<le> rating r \<and> rating r \<le> 5
      \<and> price r \<in> set [lit ''$'', lit ''$$'', lit ''$$$'', lit ''$$$$'']) sample_restaurants"
  by (simp add: sample_restaurants_def lit_def)

lemma catalog_names_distinct: "distinct (map name sample_restaurants)"
  by (simp add: sample_restaurants_def lit_def)

text \<open>
  Claim C6. The catalog has exactly three records; each has a non-empty name, a rating
  between 0 and 5 and a price that is one of the four tier tokens, and the names are
  distinct. The assignment binds the variable to this list, every statement after it leaves
  the variable as it was, so does every initial stretch of the statements after it, and
  when \<^verbatim>\<open>main\<close> returns the variable still holds the list.
\<close>

theorem catalog_is_fixed:
  "length sample_restaurants = 3
   \<and> list_all (\<lambda>r. name r \<noteq> [] \<and> 0 \<le> rating r \<and> rating r \<le> 5
        \<and> price r \<in> set [lit ''$'', lit ''$$'', lit ''$$$'', lit ''$$$$'']) sample_restaurants
   \<and> distinct (map name sample_restaurants)
   \<and> list_all keeps_catalog (after_catalog U)
   \<and> (\<forall>\<sigma> \<sigma>'. assign_sample_restaurants \<sigma> = Inr \<sigma>'
         \<longrightarrow> catalog \<sigma>' = Some sample_restaurants)
   \<and> (\<forall>k \<sigma> \<sigma>'. run (take k (after_catalog U)) \<sigma> = Inr \<sigma>' \<longrightarrow> catalog \<sigma>' = catalog \<sigma>)
   \<and> (\<forall>\<sigma> \<sigma>'. main U \<sigma> = Inr \<sigma>' \<longrightarrow> catalog \<sigma>' = Some sample_restaurants)"
proof -
  have "list_all keeps_catalog (take k (after_catalog U))" for k
    using keeps_catalog_after [of U] by (auto simp add: list_all_iff dest: in_set_takeD)
  then have "keeps_catalog (run (take k (after_catalog U)))" for k
    by (rule keeps_catalog_run)
  then have "\<forall>k \<sigma> \<sigma>'. run (take k (after_catalog U)) \<sigma> = Inr \<sigma>' \<longrightarrow> catalog \<sigma>' = catalog \<sigma>"
    unfolding keeps_catalog_def by blast
  moreover have "\<forall>\<sigma> \<sigma>'. assign_sample_restaurants \<sigma> = Inr \<sigma>'
         \<longrightarrow> catalog \<sigma>' = Some sample_restaurants"
    by (auto simp add: assign_sample_restaurants_def ok_def)
  moreover have "length sample_restaurants = 3"
    by (simp add: sample_restaurants_def)
  ultimately show ?thesis
    using catalog_well_formed catalog_names_distinct keeps_catalog_after catalog_after_main
    by blast
qed

theorem catalog_is_fixed_witness:
  "length sample_restaurants = 3
   \<and> distinct (map name sample_restaurants)
   \<and> (\<exists>\<sigma>'. main no_unicode seven_lines = Inr \<sigma>' \<and> catalog seven_lines = None
         \<and> catalog \<sigma>' = Some sample_restaurants)"
proof -
  have "7 \<le> length (stdin seven_lines)"
    by (simp add: seven_lines_def)
  with consumes_main [of no_unicode] obtain \<sigma>' where r: "main no_unicode seven_lines = Inr \<sigma>'"
    unfolding consumes_def by (metis (full_types) not_le)
  have "catalog seven_lines = None"
    by (simp add: seven_lines_def)
  with r catalog_is_fixed [of no_unicode] show ?thesis
    by blast
qed

end
